theory Spec2Isabelle
  imports Complex_Main "HOL-Library.Sublist"
begin

section \<open>Python strings\<close>

text \<open>
  A Python \<open>str\<close> is modelled as a \<open>string\<close> of ASCII characters. The character
  classes below are the ones CPython uses for code points below 128; characters from 128
  on are outside the model (they are treated as neither whitespace, nor letters, nor
  digits).
\<close>

definition py_isspace :: "char \<Rightarrow> bool" where
  \<comment> \<open>\<open>str.isspace\<close> on one character, also the class \<open>\s\<close> of \<open>re\<close>: TAB, LF, VT, FF, CR,
      FS, GS, RS, US and the space.\<close>
  "py_isspace c =
     (c \<in> set [CHR 0x09, CHR 0x0A, CHR 0x0B, CHR 0x0C, CHR 0x0D,
                CHR 0x1C, CHR 0x1D, CHR 0x1E, CHR 0x1F, CHR 0x20])"

definition upper_AZ :: string where
  "upper_AZ = ''ABCDEFGHIJKLMNOPQRSTUVWXYZ''"

definition lower_az :: string where
  "lower_az = ''abcdefghijklmnopqrstuvwxyz''"

definition digits09 :: string where
  "digits09 = ''0123456789''"

definition lower_char :: "char \<Rightarrow> char" where
  "lower_char c = (case map_of (zip upper_AZ lower_az) c of None \<Rightarrow> c | Some d \<Rightarrow> d)"

definition upper_char :: "char \<Rightarrow> char" where
  "upper_char c = (case map_of (zip lower_az upper_AZ) c of None \<Rightarrow> c | Some d \<Rightarrow> d)"

definition is_word_char :: "char \<Rightarrow> bool" where
  \<comment> \<open>The class \<open>\w\<close> of \<open>re\<close>: letters, digits and the underscore.\<close>
  "is_word_char c = (c \<in> set (upper_AZ @ lower_az @ digits09 @ ''_''))"

definition py_lower :: "string \<Rightarrow> string" where
  \<comment> \<open>\<open>s.lower()\<close>\<close>
  "py_lower s = map lower_char s"

definition py_upper :: "string \<Rightarrow> string" where
  \<comment> \<open>\<open>s.upper()\<close>\<close>
  "py_upper s = map upper_char s"

definition py_strip :: "string \<Rightarrow> string" where
  \<comment> \<open>\<open>s.strip()\<close>: leading and trailing whitespace removed.\<close>
  "py_strip s = rev (dropWhile py_isspace (rev (dropWhile py_isspace s)))"

fun py_in :: "string \<Rightarrow> string \<Rightarrow> bool" where
  \<comment> \<open>\<open>needle in hay\<close> on strings: \<open>needle\<close> starts at some offset of \<open>hay\<close>.\<close>
  "py_in needle [] = (needle = [])"
| "py_in needle (h # hs) = (prefix needle (h # hs) \<or> py_in needle hs)"

definition py_or :: "string option \<Rightarrow> string option \<Rightarrow> string option" where
  \<comment> \<open>\<open>a or b\<close> on values of type \<open>Optional[str]\<close>: \<open>None\<close> and \<open>""\<close> are falsy.\<close>
  "py_or a b = (case a of None \<Rightarrow> b | Some s \<Rightarrow> if s = [] then b else Some s)"

definition py_or_str :: "string option \<Rightarrow> string \<Rightarrow> string" where
  \<comment> \<open>\<open>a or b\<close> where \<open>b\<close> is a \<open>str\<close>.\<close>
  "py_or_str a b = (case a of None \<Rightarrow> b | Some s \<Rightarrow> if s = [] then b else s)"

definition truthy :: "string option \<Rightarrow> bool" where
  \<comment> \<open>The truth value of an \<open>Optional[str]\<close>.\<close>
  "truthy a = (case a of None \<Rightarrow> False | Some s \<Rightarrow> s \<noteq> [])"

section \<open>Regular expressions (\<open>re\<close>)\<close>

text \<open>
  The patterns of \<open>r2_parser.py\<close> use literals, the classes \<open>\s\<close>, \<open>[A-Z]\<close> and
  \<open>[:\-]\<close>, the assertions \<open>^\<close> and \<open>\b\<close>, concatenation, alternation, the greedy
  operators \<open>*\<close> and \<open>?\<close>, and one capturing group. The matcher below is a backtracking
  matcher in the order of Python's: it lists, for a pattern and a place in the text, every
  way the pattern can match from that place, the way Python tries first coming first.
\<close>

datatype regex =
    Lit string          \<comment> \<open>literal text\<close>
  | Space               \<comment> \<open>\<open>\s\<close>\<close>
  | OneOf string        \<comment> \<open>a character class \<open>[...]\<close>, by its members\<close>
  | Bol                 \<comment> \<open>\<open>^\<close> (without \<open>re.MULTILINE\<close>)\<close>
  | WordB               \<comment> \<open>\<open>\b\<close>\<close>
  | Seq regex regex
  | Alt regex regex     \<comment> \<open>\<open>a|b\<close>\<close>
  | Star regex          \<comment> \<open>greedy \<open>*\<close>\<close>
  | Opt regex           \<comment> \<open>greedy \<open>?\<close>\<close>
  | Group regex         \<comment> \<open>the capturing group 1\<close>

fun seqs :: "regex list \<Rightarrow> regex" where
  "seqs [] = Lit []"
| "seqs [r] = r"
| "seqs (r # rs) = Seq r (seqs rs)"

text \<open>
  A place in the text: the offset \<open>pos\<close>, the character before it (none at offset 0),
  the text from the offset on, and the span of group 1 when it has matched.
\<close>

record cursor =
  pos :: nat
  prev :: "char option"
  rest :: string
  grp :: "(nat \<times> nat) option"

definition chars_match :: "bool \<Rightarrow> char \<Rightarrow> char \<Rightarrow> bool" where
  \<comment> \<open>A pattern character against a text character; \<open>ic\<close> is \<open>re.IGNORECASE\<close>.\<close>
  "chars_match ic p t = (if ic then lower_char p = lower_char t else p = t)"

definition advance :: "cursor \<Rightarrow> cursor" where
  "advance c =
     (case rest c of
        [] \<Rightarrow> c
      | t # ts \<Rightarrow> c\<lparr>pos := Suc (pos c), prev := Some t, rest := ts\<rparr>)"

fun lit_match :: "bool \<Rightarrow> string \<Rightarrow> cursor \<Rightarrow> cursor list" where
  "lit_match ic [] c = [c]"
| "lit_match ic (p # ps) c =
     (case rest c of
        [] \<Rightarrow> []
      | t # ts \<Rightarrow> if chars_match ic p t then lit_match ic ps (advance c) else [])"

definition at_word_boundary :: "cursor \<Rightarrow> bool" where
  "at_word_boundary c =
     ((case prev c of None \<Rightarrow> False | Some p \<Rightarrow> is_word_char p)
        \<noteq> (case rest c of [] \<Rightarrow> False | t # ts \<Rightarrow> is_word_char t))"

function rx :: "bool \<Rightarrow> regex \<Rightarrow> cursor \<Rightarrow> cursor list" where
  "rx ic (Lit s) c = lit_match ic s c"
| "rx ic Space c =
     (case rest c of [] \<Rightarrow> [] | t # ts \<Rightarrow> if py_isspace t then [advance c] else [])"
| "rx ic (OneOf cs) c =
     (case rest c of [] \<Rightarrow> [] | t # ts \<Rightarrow> if list_ex (\<lambda>p. chars_match ic p t) cs then [advance c] else [])"
| "rx ic Bol c = (if pos c = 0 then [c] else [])"
| "rx ic WordB c = (if at_word_boundary c then [c] else [])"
| "rx ic (Seq a b) c = concat (map (rx ic b) (rx ic a c))"
| "rx ic (Alt a b) c = rx ic a c @ rx ic b c"
| "rx ic (Star a) c =
     concat (map (\<lambda>c'. if length (rest c') < length (rest c) then rx ic (Star a) c' else [])
                 (rx ic a c)) @ [c]"
| "rx ic (Opt a) c = rx ic a c @ [c]"
| "rx ic (Group a) c = map (\<lambda>c'. c'\<lparr>grp := Some (pos c, pos c')\<rparr>) (rx ic a c)"
  by pat_completeness auto
termination
  by (relation "inv_image (less_than <*lex*> less_than) (\<lambda>(ic, r, c). (size r, length (rest c)))")
     auto

text \<open>A match object: \<open>m.start()\<close>, \<open>m.end()\<close> and the span of group 1.\<close>

record re_match =
  m_start :: nat
  m_end :: nat
  m_grp :: "(nat \<times> nat) option"

definition match_at :: "bool \<Rightarrow> regex \<Rightarrow> nat \<Rightarrow> char option \<Rightarrow> string \<Rightarrow> re_match option" where
  \<comment> \<open>The match starting at the given offset, if the pattern matches there.\<close>
  "match_at ic r p pv s =
     (case rx ic r \<lparr>pos = p, prev = pv, rest = s, grp = None\<rparr> of
        [] \<Rightarrow> None
      | c # cs \<Rightarrow> Some \<lparr>m_start = p, m_end = pos c, m_grp = grp c\<rparr>)"

fun search_at :: "bool \<Rightarrow> regex \<Rightarrow> nat \<Rightarrow> char option \<Rightarrow> string \<Rightarrow> re_match option" where
  "search_at ic r p pv [] = match_at ic r p pv []"
| "search_at ic r p pv (t # ts) =
     (case match_at ic r p pv (t # ts) of
        Some m \<Rightarrow> Some m
      | None \<Rightarrow> search_at ic r (Suc p) (Some t) ts)"

definition re_search :: "bool \<Rightarrow> regex \<Rightarrow> string \<Rightarrow> re_match option" where
  \<comment> \<open>\<open>re.search(r, text, flags)\<close>: the match at the leftmost offset that has one.\<close>
  "re_search ic r text = search_at ic r 0 None text"

text \<open>
  \<open>re.finditer\<close>: the matches from left to right, each search resuming where the
  previous match ended. \<open>skip\<close> counts the characters still covered by the previous
  match. After an empty match the scan resumes one character further (no pattern of this
  module matches the empty string).
\<close>

fun finditer_at :: "bool \<Rightarrow> regex \<Rightarrow> nat \<Rightarrow> char option \<Rightarrow> string \<Rightarrow> nat \<Rightarrow> re_match list" where
  "finditer_at ic r p pv [] skip =
     (if skip = 0 then (case match_at ic r p pv [] of None \<Rightarrow> [] | Some m \<Rightarrow> [m]) else [])"
| "finditer_at ic r p pv (t # ts) skip =
     (if 0 < skip then finditer_at ic r (Suc p) (Some t) ts (skip - 1)
      else (case match_at ic r p pv (t # ts) of
              None \<Rightarrow> finditer_at ic r (Suc p) (Some t) ts 0
            | Some m \<Rightarrow> m # finditer_at ic r (Suc p) (Some t) ts (m_end m - p - 1)))"

definition re_finditer :: "bool \<Rightarrow> regex \<Rightarrow> string \<Rightarrow> re_match list" where
  "re_finditer ic r text = finditer_at ic r 0 None text 0"

definition group1 :: "string \<Rightarrow> re_match \<Rightarrow> string option" where
  \<comment> \<open>\<open>m.group(1)\<close>; \<open>None\<close> when the group took no part in the match.\<close>
  "group1 text m = (case m_grp m of None \<Rightarrow> None | Some (a, b) \<Rightarrow> Some (take (b - a) (drop a text)))"

section \<open>Records of the pipeline\<close>

text \<open>
  The dicts the ingestor emits (\<open>xml_r3_parser.py\<close>) always carry the five identifier
  fields as strings and the three cost fields as \<open>float\<close> or \<open>None\<close>; the key
  \<open>R1D_Description\<close> is present only on rows of a hierarchical sheet. The type \<open>'f\<close>
  stands for Python's \<open>float\<close>.
\<close>

record 'f cost_line =
  PENumber :: string
  PEName :: string
  ProjectNumber :: string
  ProjectName :: string
  CostCategory :: string
  FY2023_Cost :: "'f option"
  FY2024_Cost :: "'f option"
  FY2025_Base_Cost :: "'f option"
  R1D_Description :: "string option"

text \<open>
  The value of \<open>r2_lookup[pe]\<close>: a dict with the keys \<open>mission\<close>, \<open>accomplishments\<close>,
  \<open>acquisition\<close> and \<open>is_new_start\<close>, each \<open>Optional[str]\<close>. \<open>None\<close> is both a missing key
  and a key bound to \<open>None\<close> (the code reads every key with \<open>.get\<close>).
\<close>

record narrative_bundle =
  mission :: "string option"
  accomplishments :: "string option"
  acquisition :: "string option"
  is_new_start :: "string option"

definition empty_bundle :: narrative_bundle where
  \<comment> \<open>The default \<open>{}\<close> of \<open>r2_lookup.get(pe, {})\<close>.\<close>
  "empty_bundle = \<lparr>mission = None, accomplishments = None, acquisition = None, is_new_start = None\<rparr>"

text \<open>\<open>schema.py\<close>, the dataclass \<open>EnrichedRecord\<close>.\<close>

record 'f enriched_record =
  e_SourceFile :: string
  e_PENumber :: string
  e_PEName :: string
  e_ProjectNumber :: string
  e_ProjectName :: string
  e_CostCategory :: string
  e_FY2023_Cost :: "'f option"
  e_FY2024_Cost :: "'f option"
  e_FY2025_Base_Cost :: "'f option"
  e_AccomplishmentsText :: "string option"
  e_AcquisitionStrategyText :: "string option"
  e_IsNewStart :: "bool option"
  e_MissionDescriptionText :: "string option"

section \<open>Narrative sections (\<open>r2_parser.py\<close>)\<close>

datatype py_error = AttributeError | ParseError | ValueError | OverflowError

definition pat_mission :: regex where
  \<comment> \<open>\<open>A\.\s*Mission Description and Budget Item Justification\b\<close>\<close>
  "pat_mission =
     seqs [Lit ''A.'', Star Space, Lit ''Mission Description and Budget Item Justification'', WordB]"

definition pat_accomplishments :: regex where
  \<comment> \<open>\<open>C\.\s*Accomplishments/Planned Programs\b\<close>\<close>
  "pat_accomplishments = seqs [Lit ''C.'', Star Space, Lit ''Accomplishments/Planned Programs'', WordB]"

definition pat_acquisition :: regex where
  \<comment> \<open>\<open>D\.\s*Acquisition Strategy\b\<close>\<close>
  "pat_acquisition = seqs [Lit ''D.'', Star Space, Lit ''Acquisition Strategy'', WordB]"

definition pat_generic :: regex where
  \<comment> \<open>\<open>^\s*[A-Z]\.\s\<close>\<close>
  "pat_generic = seqs [Bol, Star Space, OneOf upper_AZ, Lit ''.'', Space]"

definition pat_new_start :: regex where
  \<comment> \<open>\<open>New\s*Start\s*[:\-]?\s*(Yes|No)\b\<close>\<close>
  "pat_new_start =
     seqs [Lit ''New'', Star Space, Lit ''Start'', Star Space, Opt (OneOf '':-''), Star Space,
           Group (Alt (Lit ''Yes'') (Lit ''No'')), WordB]"

function collapse_ws :: "string \<Rightarrow> string" where
  \<comment> \<open>\<open>re.sub(r"\s+", " ", t)\<close>: every maximal run of whitespace becomes one space.\<close>
  "collapse_ws [] = []"
| "collapse_ws (c # cs) =
     (if py_isspace c then CHR '' '' # collapse_ws (dropWhile py_isspace cs)
      else c # collapse_ws cs)"
  by pat_completeness auto
termination
  by (relation "measure length") (auto simp: length_dropWhile_le less_Suc_eq_le)

definition normalize_text :: "string \<Rightarrow> string" where
  "normalize_text t = py_strip (collapse_ws t)"

fun min_by_start :: "re_match \<Rightarrow> re_match list \<Rightarrow> re_match" where
  \<comment> \<open>\<open>min(ms, key=lambda m: m.start())\<close> on a non-empty list: the first of the least.\<close>
  "min_by_start best [] = best"
| "min_by_start best (m # ms) = min_by_start (if m_start m < m_start best then m else best) ms"

definition extract_section :: "string \<Rightarrow> regex \<Rightarrow> regex list \<Rightarrow> string option" where
  "extract_section text start_regex end_regexes =
     (case re_search True start_regex text of
        None \<Rightarrow> None
      | Some start \<Rightarrow>
          (let start_idx = m_end start;
               end_matches = concat (map (\<lambda>r. re_finditer True r (drop start_idx text)) end_regexes)
           in case end_matches of
                [] \<Rightarrow> Some (normalize_text (drop start_idx text))
              | m # ms \<Rightarrow>
                  (let first_end = min_by_start m ms;
                       end_idx = start_idx + m_start first_end
                   in Some (normalize_text (take (end_idx - start_idx) (drop start_idx text))))))"

definition detect_new_start_flag :: "string \<Rightarrow> py_error + bool option" where
  \<comment> \<open>\<open>m.group(1).lower()\<close> raises \<open>AttributeError\<close> if the group is \<open>None\<close>.\<close>
  "detect_new_start_flag text =
     (case re_search True pat_new_start text of
        None \<Rightarrow> Inr None
      | Some m \<Rightarrow>
          (case group1 text m of
             None \<Rightarrow> Inl AttributeError
           | Some g \<Rightarrow> Inr (Some (py_lower g = ''yes''))))"

definition py_str_bool :: "bool \<Rightarrow> string" where
  \<comment> \<open>\<open>str(bool(b))\<close>\<close>
  "py_str_bool b = (if b then ''True'' else ''False'')"

text \<open>
  \<open>extract_r2_sections_for_pe\<close> from the point where the pages of the program element
  have been read and joined into \<open>text\<close> (lines 96 to 120); opening the PDF and choosing
  the pages is the work of PyMuPDF.
\<close>

definition extract_r2_sections_of_text :: "string \<Rightarrow> py_error + narrative_bundle" where
  "extract_r2_sections_of_text text =
     (let mission_s = extract_section text pat_mission [pat_accomplishments, pat_acquisition, pat_generic];
          accomplishments_s = extract_section text pat_accomplishments [pat_acquisition, pat_generic];
          acquisition_s = extract_section text pat_acquisition [pat_generic]
      in case detect_new_start_flag text of
           Inl e \<Rightarrow> Inl e
         | Inr flag \<Rightarrow>
             Inr \<lparr>mission = mission_s,
                  accomplishments = accomplishments_s,
                  acquisition = acquisition_s,
                  is_new_start = (case flag of None \<Rightarrow> None | Some b \<Rightarrow> Some (py_str_bool b))\<rparr>)"

section \<open>Fusion (\<open>fusion.py\<close>)\<close>

definition decode_new_start :: "string option \<Rightarrow> bool option" where
  \<comment> \<open>Lines 25 to 31 of \<open>fuse_r3_with_r2\<close>.\<close>
  "decode_new_start v =
     (case v of
        None \<Rightarrow> None
      | Some s \<Rightarrow>
          if py_lower s \<in> set [''true'', ''yes'', ''1''] then Some True
          else if py_lower s \<in> set [''false'', ''no'', ''0''] then Some False
          else None)"

definition fuse_row ::
  "string \<Rightarrow> (string \<rightharpoonup> narrative_bundle) \<Rightarrow> bool \<Rightarrow> 'f cost_line \<Rightarrow> 'f enriched_record" where
  \<comment> \<open>The body of the loop of \<open>fuse_r3_with_r2\<close>: the record appended for one row.\<close>
  "fuse_row source_file r2_lookup use_r1d_description row =
     (let pe = py_strip (py_or_str (Some (PENumber row)) []);
          pe_texts = (case r2_lookup pe of None \<Rightarrow> empty_bundle | Some b \<Rightarrow> b);
          is_new_start_val = is_new_start pe_texts;
          is_new = decode_new_start is_new_start_val;
          r1d_desc = py_strip (py_or_str (R1D_Description row) []);
          accomplishments_text = accomplishments pe_texts;
          mission_text = mission pe_texts;
          acquisition_text = acquisition pe_texts;
          accomplishments_text =
            (if use_r1d_description \<and> \<not> truthy accomplishments_text \<and> r1d_desc \<noteq> []
             then Some r1d_desc else accomplishments_text);
          mission_text =
            (if use_r1d_description \<and> \<not> truthy mission_text \<and> r1d_desc \<noteq> []
             then Some r1d_desc else mission_text)
      in \<lparr>e_SourceFile = source_file,
          e_PENumber = PENumber row,
          e_PEName = PEName row,
          e_ProjectNumber = ProjectNumber row,
          e_ProjectName = ProjectName row,
          e_CostCategory = CostCategory row,
          e_FY2023_Cost = FY2023_Cost row,
          e_FY2024_Cost = FY2024_Cost row,
          e_FY2025_Base_Cost = FY2025_Base_Cost row,
          e_AccomplishmentsText = accomplishments_text,
          e_AcquisitionStrategyText = acquisition_text,
          e_IsNewStart = is_new,
          e_MissionDescriptionText = mission_text\<rparr>)"

fun fuse_loop ::
  "string \<Rightarrow> (string \<rightharpoonup> narrative_bundle) \<Rightarrow> bool \<Rightarrow> 'f enriched_record list \<Rightarrow> 'f cost_line list
     \<Rightarrow> 'f enriched_record list" where
  \<comment> \<open>\<open>for row in r3_rows: ... enriched.append(...)\<close>, the list \<open>enriched\<close> threaded.\<close>
  "fuse_loop source_file r2_lookup flag enriched [] = enriched"
| "fuse_loop source_file r2_lookup flag enriched (row # rows) =
     fuse_loop source_file r2_lookup flag (enriched @ [fuse_row source_file r2_lookup flag row]) rows"

definition fuse_r3_with_r2 ::
  "string \<Rightarrow> 'f cost_line list \<Rightarrow> (string \<rightharpoonup> narrative_bundle) \<Rightarrow> bool \<Rightarrow> 'f enriched_record list" where
  "fuse_r3_with_r2 source_file r3_rows r2_lookup use_r1d_description =
     fuse_loop source_file r2_lookup use_r1d_description [] r3_rows"

definition bundle_for :: "(string \<rightharpoonup> narrative_bundle) \<Rightarrow> 'f cost_line \<Rightarrow> narrative_bundle" where
  \<comment> \<open>\<open>r2_lookup.get(pe, {})\<close> for the trimmed \<open>PENumber\<close> of a row.\<close>
  "bundle_for r2_lookup row =
     (case r2_lookup (py_strip (PENumber row)) of None \<Rightarrow> empty_bundle | Some b \<Rightarrow> b)"

definition r1d_desc_of :: "'f cost_line \<Rightarrow> string" where
  \<comment> \<open>\<open>(row.get("R1D_Description") or "").strip()\<close>\<close>
  "r1d_desc_of row = py_strip (py_or_str (R1D_Description row) [])"

text \<open>Two cost lines and a lookup with a bundle for the first of them only.\<close>

definition demo_rows :: "int cost_line list" where
  "demo_rows =
     [\<lparr>PENumber = ''0604123X'', PEName = ''Hypersonics'', ProjectNumber = ''001'',
       ProjectName = ''Flight Test'', CostCategory = ''Project Totals'', FY2023_Cost = Some 10,
       FY2024_Cost = Some 12, FY2025_Base_Cost = Some 15, R1D_Description = Some ''Test flights''\<rparr>,
      \<lparr>PENumber = '' 0602000A '', PEName = ''Sensors'', ProjectNumber = ''002'',
       ProjectName = ''Radar'', CostCategory = ''Prototype'', FY2023_Cost = None,
       FY2024_Cost = Some 3, FY2025_Base_Cost = None, R1D_Description = Some ''Radar prototype''\<rparr>]"

definition demo_lookup :: "string \<rightharpoonup> narrative_bundle" where
  "demo_lookup =
     [''0604123X'' \<mapsto> \<lparr>mission = Some ''Develops X.'', accomplishments = None,
                        acquisition = Some ''Sole source.'', is_new_start = Some ''True''\<rparr>]"

section \<open>Cell values and numbers\<close>

text \<open>
  A cell value (\<open>c.value\<close> of openpyxl), or any Python object handed to the numeric
  parser: \<open>None\<close>, a \<open>str\<close>, an \<open>int\<close>, a \<open>float\<close>, a \<open>bool\<close>, or another object
  (a date, say) given by what \<open>str()\<close> prints for it.
\<close>

datatype 'f pyval = PNone | PStr string | PInt int | PFloat 'f | PBool bool | PObj string

text \<open>
  Python's \<open>float\<close> is a parameter of the model: the type \<open>'f\<close> with the three builtins
  the code calls on it. A builtin that raises returns \<open>Inl\<close> of the exception.
\<close>

record 'f float_ops =
  float_of_str :: "string \<Rightarrow> py_error + 'f"   \<comment> \<open>\<open>float(s)\<close>, \<open>ValueError\<close> on a string that is no numeral\<close>
  float_of_int :: "int \<Rightarrow> py_error + 'f"      \<comment> \<open>\<open>float(i)\<close>, \<open>OverflowError\<close> on an int too large\<close>
  str_of_float :: "'f \<Rightarrow> string"               \<comment> \<open>\<open>str(x)\<close>\<close>

fun str_of_nat :: "nat \<Rightarrow> string" where
  "str_of_nat n =
     (if n < 10 then [digits09 ! n] else str_of_nat (n div 10) @ [digits09 ! (n mod 10)])"

definition str_of_int :: "int \<Rightarrow> string" where
  "str_of_int i = (if i < 0 then CHR ''-'' # str_of_nat (nat (- i)) else str_of_nat (nat i))"

definition py_str :: "'f float_ops \<Rightarrow> 'f pyval \<Rightarrow> string" where
  \<comment> \<open>\<open>str(v)\<close>\<close>
  "py_str fl v =
     (case v of
        PNone \<Rightarrow> ''None''
      | PStr s \<Rightarrow> s
      | PInt i \<Rightarrow> str_of_int i
      | PFloat x \<Rightarrow> str_of_float fl x
      | PBool b \<Rightarrow> py_str_bool b
      | PObj s \<Rightarrow> s)"

definition remove_commas :: "string \<Rightarrow> string" where
  \<comment> \<open>\<open>s.replace(",", "")\<close>\<close>
  "remove_commas s = filter (\<lambda>c. c \<noteq> CHR '','') s"

definition catch_all :: "py_error + 'a \<Rightarrow> 'a option" where
  \<comment> \<open>\<open>try: return e  except Exception: return None\<close>\<close>
  "catch_all r = (case r of Inl e \<Rightarrow> None | Inr x \<Rightarrow> Some x)"

definition parse_float_safe :: "'f float_ops \<Rightarrow> string option \<Rightarrow> 'f option" where
  \<comment> \<open>\<open>_parse_float_safe\<close>\<close>
  "parse_float_safe fl v =
     (case v of
        None \<Rightarrow> None
      | Some s \<Rightarrow> catch_all (float_of_str fl (py_strip (remove_commas s))))"

definition norm :: "string option \<Rightarrow> string" where
  \<comment> \<open>\<open>_norm\<close>\<close>
  "norm s = py_strip (py_or_str s [])"

definition parse_float_safe_any :: "'f float_ops \<Rightarrow> 'f pyval \<Rightarrow> 'f option" where
  \<comment> \<open>\<open>_parse_float_safe_any\<close>; a \<open>bool\<close> is an \<open>int\<close> in Python.\<close>
  "parse_float_safe_any fl v =
     (case v of
        PNone \<Rightarrow> None
      | PInt i \<Rightarrow> catch_all (float_of_int fl i)
      | PFloat x \<Rightarrow> Some x
      | PBool b \<Rightarrow> catch_all (float_of_int fl (if b then 1 else 0))
      | _ \<Rightarrow>
          (let s = py_str fl v
           in if py_strip s = [] then None
              else catch_all (float_of_str fl (py_strip (remove_commas s)))))"

section \<open>XML files (\<open>_parse_xml_file\<close>)\<close>

text \<open>
  The tree lxml hands over: an element has a tag, attributes, a text (or \<open>None\<close>) and
  child elements in document order.
\<close>

datatype xml = Elem (tag: string) (attrs: "(string \<times> string) list") (etext: "string option") (children: "xml list")

fun descendants_or_self :: "xml \<Rightarrow> xml list" where
  \<comment> \<open>The element and every element below it, in document order.\<close>
  "descendants_or_self (Elem t a x cs) = Elem t a x cs # concat (map descendants_or_self cs)"

definition xpath_doc :: "xml \<Rightarrow> string list \<Rightarrow> xml list" where
  \<comment> \<open>\<open>root.xpath("//T1 | //T2 | ...")\<close> for the root \<open>doc\<close>: every element of the document with one of the
      tags, in document order.\<close>
  "xpath_doc doc tags = filter (\<lambda>e. tag e \<in> set tags) (descendants_or_self doc)"

definition xpath_below :: "xml \<Rightarrow> string list \<Rightarrow> xml list" where
  \<comment> \<open>\<open>e.xpath(".//T1 | .//T2 | ...")\<close>: the same among the elements strictly below \<open>e\<close>.\<close>
  "xpath_below e tags = filter (\<lambda>d. tag d \<in> set tags) (concat (map descendants_or_self (children e)))"

definition xml_get :: "xml \<Rightarrow> string \<Rightarrow> string option" where
  \<comment> \<open>\<open>e.get(name)\<close>: the attribute, or \<open>None\<close>.\<close>
  "xml_get e name = map_of (attrs e) name"

definition findtext :: "xml \<Rightarrow> string \<Rightarrow> string option" where
  \<comment> \<open>\<open>e.findtext(name)\<close>: the text of the first child with that tag (\<open>""\<close> if it has
      none), or \<open>None\<close> without such a child.\<close>
  "findtext e name =
     (case filter (\<lambda>d. tag d = name) (children e) of
        [] \<Rightarrow> None
      | d # ds \<Rightarrow> Some (case etext d of None \<Rightarrow> [] | Some s \<Rightarrow> s))"

fun py_or_chain :: "string option list \<Rightarrow> string option" where
  \<comment> \<open>\<open>a or b or ... or z\<close>\<close>
  "py_or_chain [] = None"
| "py_or_chain [a] = a"
| "py_or_chain (a # as) = py_or a (py_or_chain as)"

definition xml_cost_line :: "'f float_ops \<Rightarrow> string option \<Rightarrow> string option \<Rightarrow> xml \<Rightarrow> xml \<Rightarrow> 'f cost_line" where
  \<comment> \<open>The dict appended for one cost element \<open>cc\<close> of the project \<open>proj\<close>.\<close>
  "xml_cost_line fl pe_number pe_name proj cc =
     (let project_number = py_or_chain [xml_get proj ''number'', findtext proj ''Number'', findtext proj ''PROJECT_NUMBER''];
          project_name = py_or_chain [xml_get proj ''name'', findtext proj ''Name'', findtext proj ''PROJECT_TITLE''];
          cc_name = py_or_chain [xml_get cc ''name'', findtext cc ''Name'', findtext cc ''COST_CATEGORY'', findtext cc ''LINE_NAME''];
          fy23 = parse_float_safe fl (py_or_chain [xml_get cc ''FY2023'', findtext cc ''FY2023'']);
          fy24 = parse_float_safe fl (py_or_chain [xml_get cc ''FY2024'', findtext cc ''FY2024'']);
          fy25_base = parse_float_safe fl
            (py_or_chain [xml_get cc ''FY2025Base'', findtext cc ''FY2025Base'', findtext cc ''FY2025_Base'', findtext cc ''FY2025''])
      in \<lparr>PENumber = norm pe_number,
          PEName = norm pe_name,
          ProjectNumber = norm project_number,
          ProjectName = norm project_name,
          CostCategory = norm cc_name,
          FY2023_Cost = fy23,
          FY2024_Cost = fy24,
          FY2025_Base_Cost = fy25_base,
          R1D_Description = None\<rparr>)"

definition xml_pe_lines :: "'f float_ops \<Rightarrow> xml \<Rightarrow> 'f cost_line list" where
  \<comment> \<open>The body of the loop over the program elements.\<close>
  "xml_pe_lines fl pe =
     (let pe_number = py_or_chain [xml_get pe ''number'', findtext pe ''Number'',
                                   findtext pe ''PROGRAM_ELEMENT_NUMBER'', findtext pe ''PeNumber''];
          pe_name = py_or_chain [xml_get pe ''name'', findtext pe ''Name'',
                                 findtext pe ''PROGRAM_ELEMENT_TITLE'', findtext pe ''PeName'']
      in if \<not> truthy pe_number then []
         else concat (map (\<lambda>proj.
                map (xml_cost_line fl pe_number pe_name proj)
                    (xpath_below proj [''CostCategory'', ''COST_CATEGORY'', ''Line'', ''COST_LINE'', ''CostItem'']))
              (xpath_below pe [''Project'', ''PROJECT'', ''Proj''])))"

definition parse_xml_tree :: "'f float_ops \<Rightarrow> py_error + xml \<Rightarrow> 'f cost_line list" where
  \<comment> \<open>\<open>_parse_xml_file\<close>, given what \<open>etree.parse(path)\<close> returns or raises.\<close>
  "parse_xml_tree fl parsed =
     (case parsed of
        Inl e \<Rightarrow> []
      | Inr doc \<Rightarrow>
          concat (map (xml_pe_lines fl)
                      (xpath_doc doc [''ProgramElement'', ''PROGRAM_ELEMENT'', ''Pe'', ''PE''])))"

section \<open>Worksheets (\<open>_find_header_row\<close>, \<open>_header_map\<close>)\<close>

text \<open>
  A worksheet as openpyxl iterates it in read-only mode (\<open>sheet.iter_rows\<close>): item \<open>k\<close> is
  row \<open>k\<close> of the sheet, a tuple of cells from the first column on. A cell of the file is a
  \<open>ReadOnlyCell\<close> with its value; a missing cell is padded with the \<open>EmptyCell\<close>, which has
  the value \<open>None\<close> and no attribute \<open>row\<close>; a missing row is a tuple of such cells, or the
  empty tuple. The iterator reads the sheet as it goes: an item \<open>Inl e\<close> is the exception
  it raises where the sheet cannot be read further.
\<close>

datatype 'f cell = ReadOnlyCell "'f pyval" | EmptyCell

definition cell_value :: "'f cell \<Rightarrow> 'f pyval" where
  \<comment> \<open>\<open>c.value\<close>\<close>
  "cell_value c = (case c of ReadOnlyCell v \<Rightarrow> v | EmptyCell \<Rightarrow> PNone)"

definition cell_row :: "nat \<Rightarrow> 'f cell \<Rightarrow> py_error + nat" where
  \<comment> \<open>\<open>c.row\<close> for a cell of row \<open>k\<close>\<close>
  "cell_row k c = (case c of ReadOnlyCell v \<Rightarrow> Inr k | EmptyCell \<Rightarrow> Inl AttributeError)"

type_synonym 'f row_vals = "'f pyval list"
type_synonym 'f sheet = "(py_error + 'f cell list) list"
type_synonym header_map = "(string \<times> nat) list"

definition sheet_of_values :: "'f row_vals list \<Rightarrow> 'f sheet" where
  \<comment> \<open>The sheet whose rows hold the given values, every cell present.\<close>
  "sheet_of_values rows = map (\<lambda>row. Inr (map ReadOnlyCell row)) rows"

definition cell_text :: "'f float_ops \<Rightarrow> 'f pyval \<Rightarrow> string" where
  \<comment> \<open>\<open>str(c.value).strip().lower() if c.value is not None else ""\<close>\<close>
  "cell_text fl v = (if v \<noteq> PNone then py_lower (py_strip (py_str fl v)) else [])"

fun py_join :: "string \<Rightarrow> string list \<Rightarrow> string" where
  \<comment> \<open>\<open>sep.join(xs)\<close>\<close>
  "py_join sep [] = []"
| "py_join sep [x] = x"
| "py_join sep (x # xs) = x @ sep @ py_join sep xs"

definition is_header_row :: "string list \<Rightarrow> bool" where
  \<comment> \<open>The three tests of \<open>_find_header_row\<close> on the texts of one row.\<close>
  "is_header_row vals =
     (let joined = py_join '' '' vals
      in list_all (\<lambda>k. py_in k joined) [''project'', ''program'', ''element'']
         \<or> (list_ex (\<lambda>v. py_in ''program element'' v) vals \<and> list_ex (\<lambda>v. py_in ''project'' v) vals)
         \<or> (list_ex (\<lambda>v. v = ''type'') vals \<and> list_ex (\<lambda>v. py_in ''pe#'' v) vals
              \<and> list_ex (\<lambda>v. py_in ''project#'' v) vals))"

fun find_header_loop :: "'f float_ops \<Rightarrow> nat \<Rightarrow> nat \<Rightarrow> 'f sheet \<Rightarrow> py_error + nat option" where
  \<comment> \<open>The loop of \<open>_find_header_row\<close>; \<open>k\<close> is the row number of the next row. Line 78 reads
      \<open>row[0].row\<close>, which raises on an \<open>EmptyCell\<close>.\<close>
  "find_header_loop fl current_row k [] = Inr None"
| "find_header_loop fl current_row k (Inl e # rows) = Inl e"
| "find_header_loop fl current_row k (Inr row # rows) =
     (case (if row \<noteq> [] then cell_row k (hd row) else Inr (current_row + 1)) of
        Inl e \<Rightarrow> Inl e
      | Inr current_row \<Rightarrow>
          if is_header_row (map (\<lambda>c. cell_text fl (cell_value c)) row) then Inr (Some current_row)
          else find_header_loop fl current_row (Suc k) rows)"

definition find_header_row :: "'f float_ops \<Rightarrow> 'f sheet \<Rightarrow> py_error + nat option" where
  \<comment> \<open>\<open>_find_header_row(sheet)\<close> with \<open>max_search_rows = 50\<close>: at most 50 rows are read.\<close>
  "find_header_row fl sheet = find_header_loop fl 0 1 (take 50 sheet)"

definition setdefault :: "string \<Rightarrow> nat \<Rightarrow> header_map \<Rightarrow> header_map" where
  \<comment> \<open>\<open>mapping.setdefault(key, idx)\<close>\<close>
  "setdefault key idx m = (case map_of m key of None \<Rightarrow> m @ [(key, idx)] | Some i \<Rightarrow> m)"

definition header_cell :: "string \<Rightarrow> nat \<Rightarrow> header_map \<Rightarrow> header_map" where
  \<comment> \<open>The body of the loop of \<open>_header_map\<close> for a cell of text \<open>v\<close> in column \<open>idx\<close>: its
      \<open>if\<close> statements in their order, each with the field it sets.\<close>
  "header_cell v idx m =
     (if v = [] then m
      else foldl (\<lambda>m (b, key). if b then setdefault key idx m else m) m
        [(py_in ''program element'' v \<and> (py_in ''number'' v \<or> suffix ''program element'' v), ''PENumber''),
         (py_in ''program element name'' v \<or> py_in ''pe name'' v
            \<or> (suffix ''title'' v \<and> py_in ''program element'' v), ''PEName''),
         (py_in ''project number'' v \<or> v = ''project'' \<or> v = ''project#'', ''ProjectNumber''),
         (py_in ''project name'' v \<or> py_in ''project title'' v, ''ProjectName''),
         (py_in ''cost category'' v \<or> py_in ''cost element'' v \<or> py_in ''line item'' v, ''CostCategory''),
         (v = ''pe#'', ''PENumber''),
         (v = ''type'', ''Type''),
         (py_in ''accomplishments/planned programs title'' v \<or> prefix ''pe/project/'' v, ''Title''),
         (v = ''description'', ''Description''),
         (py_in ''fy2023'' v \<or> v = ''fy 2023'' \<or> v = ''fy23'', ''FY2023_Cost''),
         (py_in ''fy2024'' v \<or> v = ''fy 2024'' \<or> v = ''fy24'', ''FY2024_Cost''),
         (py_in ''fy 2025 base'' v \<or> v = ''fy25 base'' \<or> (py_in ''fy2025'' v \<and> py_in ''base'' v)
            \<or> py_in ''fy2025 base'' v, ''FY2025_Base_Cost'')])"

fun header_map_loop :: "'f float_ops \<Rightarrow> nat \<Rightarrow> header_map \<Rightarrow> 'f row_vals \<Rightarrow> header_map" where
  \<comment> \<open>\<open>for idx, cell in enumerate(cells)\<close>\<close>
  "header_map_loop fl idx m [] = m"
| "header_map_loop fl idx m (c # cs) = header_map_loop fl (Suc idx) (header_cell (cell_text fl c) idx m) cs"

definition header_map_of :: "'f float_ops \<Rightarrow> 'f row_vals \<Rightarrow> header_map" where
  \<comment> \<open>\<open>_header_map\<close>\<close>
  "header_map_of fl cells = header_map_loop fl 0 [] cells"

definition is_blank_row :: "'f row_vals \<Rightarrow> bool" where
  \<comment> \<open>\<open>all(c is None or (isinstance(c, str) and not c.strip()) for c in row_vals)\<close>\<close>
  "is_blank_row row_vals =
     list_all (\<lambda>c. case c of PNone \<Rightarrow> True | PStr s \<Rightarrow> py_strip s = [] | _ \<Rightarrow> False) row_vals"

definition gv :: "'f float_ops \<Rightarrow> header_map \<Rightarrow> 'f row_vals \<Rightarrow> string \<Rightarrow> string option" where
  \<comment> \<open>The local function \<open>gv\<close> of both sheet parsers.\<close>
  "gv fl hdr_map row_vals key =
     (case map_of hdr_map key of
        None \<Rightarrow> None
      | Some idx \<Rightarrow>
          if idx \<ge> length row_vals then None
          else (case row_vals ! idx of PNone \<Rightarrow> None | v \<Rightarrow> Some (py_strip (py_str fl v))))"

definition opt_str :: "string option \<Rightarrow> 'f pyval" where
  \<comment> \<open>An \<open>Optional[str]\<close> passed as an object.\<close>
  "opt_str s = (case s of None \<Rightarrow> PNone | Some t \<Rightarrow> PStr t)"

section \<open>The hierarchical Row-Walker (\<open>_parse_r1d_sheet\<close>)\<close>

record walker =
  current_pe_num :: "string option"
  current_pe_name :: "string option"
  current_proj_num :: "string option"
  current_proj_name :: "string option"
  blank_streak :: nat

definition walker_init :: walker where
  "walker_init = \<lparr>current_pe_num = None, current_pe_name = None, current_proj_num = None,
                  current_proj_name = None, blank_streak = 0\<rparr>"

definition r1d_record :: "'f float_ops \<Rightarrow> header_map \<Rightarrow> walker \<Rightarrow> 'f row_vals \<Rightarrow> string \<Rightarrow> 'f cost_line" where
  \<comment> \<open>The dict \<open>rec\<close> both emitting branches build, with its \<open>CostCategory\<close> given.\<close>
  "r1d_record fl hdr_map st row_vals cc =
     \<lparr>PENumber = norm (current_pe_num st),
      PEName = norm (current_pe_name st),
      ProjectNumber = norm (current_proj_num st),
      ProjectName = norm (current_proj_name st),
      CostCategory = cc,
      FY2023_Cost = parse_float_safe_any fl (opt_str (gv fl hdr_map row_vals ''FY2023_Cost'')),
      FY2024_Cost = parse_float_safe_any fl (opt_str (gv fl hdr_map row_vals ''FY2024_Cost'')),
      FY2025_Base_Cost = parse_float_safe_any fl (opt_str (gv fl hdr_map row_vals ''FY2025_Base_Cost'')),
      R1D_Description = Some (py_or_str (gv fl hdr_map row_vals ''Description'') [])\<rparr>"

definition is_summary_category :: "string \<Rightarrow> bool" where
  \<comment> \<open>The test of line 197 on \<open>rec["CostCategory"]\<close>.\<close>
  "is_summary_category cc =
     (let cc_lower = py_lower cc
      in (py_in ''totals'' cc_lower \<and> py_in ''sum of'' cc_lower) \<or> cc_lower \<in> set [''project totals''])"

definition row_type :: "'f float_ops \<Rightarrow> header_map \<Rightarrow> 'f row_vals \<Rightarrow> string" where
  \<comment> \<open>\<open>typ = (gv(row_vals, "Type") or "").upper()\<close>\<close>
  "row_type fl hdr_map row_vals = py_upper (py_or_str (gv fl hdr_map row_vals ''Type'') [])"

definition leaf_category :: "'f float_ops \<Rightarrow> header_map \<Rightarrow> 'f row_vals \<Rightarrow> string" where
  \<comment> \<open>\<open>_norm(title or gv(row_vals, "Description") or typ)\<close>\<close>
  "leaf_category fl hdr_map row_vals =
     norm (Some (py_or_str (py_or (Some (py_or_str (gv fl hdr_map row_vals ''Title'') []))
                                  (gv fl hdr_map row_vals ''Description''))
                           (row_type fl hdr_map row_vals)))"

definition project_types :: "string list" where
  \<comment> \<open>The types of line 164.\<close>
  "project_types = [''PROJECT'', ''PROJECTS'', ''PRJ'']"

text \<open>The context after a PROJECT row (lines 165 and 166) and after a PE row (lines 159 to 162).\<close>

definition project_ctx :: "'f float_ops \<Rightarrow> header_map \<Rightarrow> walker \<Rightarrow> 'f row_vals \<Rightarrow> walker" where
  "project_ctx fl hdr_map st row_vals =
     st\<lparr>current_proj_num := py_or (gv fl hdr_map row_vals ''ProjectNumber'') (current_proj_num st),
        current_proj_name := py_or (Some (py_or_str (gv fl hdr_map row_vals ''Title'') [])) (current_proj_name st)\<rparr>"

definition pe_ctx :: "'f float_ops \<Rightarrow> header_map \<Rightarrow> walker \<Rightarrow> 'f row_vals \<Rightarrow> walker" where
  "pe_ctx fl hdr_map st row_vals =
     st\<lparr>current_pe_num := py_or (gv fl hdr_map row_vals ''PENumber'') (current_pe_num st),
        current_pe_name := py_or (Some (py_or_str (gv fl hdr_map row_vals ''Title'') [])) (current_pe_name st),
        current_proj_num := None, current_proj_name := None\<rparr>"

definition r1d_row :: "'f float_ops \<Rightarrow> header_map \<Rightarrow> walker \<Rightarrow> 'f row_vals \<Rightarrow> walker \<times> 'f cost_line list" where
  \<comment> \<open>One non-blank row (lines 152 to 202): the context after it and what it appends to
      \<open>results\<close>.\<close>
  "r1d_row fl hdr_map st row_vals =
     (let typ = py_upper (py_or_str (gv fl hdr_map row_vals ''Type'') []);
          pe_num = py_or (gv fl hdr_map row_vals ''PENumber'') (current_pe_num st);
          proj_num = py_or (gv fl hdr_map row_vals ''ProjectNumber'') (current_proj_num st);
          title = py_or_str (gv fl hdr_map row_vals ''Title'') []
      in if typ = ''PE'' then
           (st\<lparr>current_pe_num := py_or (gv fl hdr_map row_vals ''PENumber'') (current_pe_num st),
               current_pe_name := py_or (Some title) (current_pe_name st),
               current_proj_num := None,
               current_proj_name := None\<rparr>, [])
         else if typ = ''PROJECT'' \<or> typ = ''PROJECTS'' \<or> typ = ''PRJ'' then
           (let st' = st\<lparr>current_proj_num := py_or (gv fl hdr_map row_vals ''ProjectNumber'') (current_proj_num st),
                          current_proj_name := py_or (Some title) (current_proj_name st)\<rparr>
            in (st', [r1d_record fl hdr_map st' row_vals ''Project Totals'']))
         else if typ \<in> set [''A/PP'', ''CA''] \<or> (typ \<noteq> [] \<and> typ \<notin> set [''PE'', ''PROJECT'']) then
           (let rec = r1d_record fl hdr_map st row_vals
                        (norm (Some (py_or_str (py_or (Some title) (gv fl hdr_map row_vals ''Description'')) typ)))
            in if is_summary_category (CostCategory rec) then (st, [])
               else if PENumber rec \<noteq> [] \<or> ProjectNumber rec \<noteq> [] \<or> CostCategory rec \<noteq> [] then (st, [rec])
               else (st, []))
         else (st, []))"

fun r1d_loop :: "'f float_ops \<Rightarrow> header_map \<Rightarrow> walker \<Rightarrow> 'f cost_line list \<Rightarrow> 'f sheet \<Rightarrow> py_error + 'f cost_line list" where
  \<comment> \<open>The loop over the rows below the header, with \<open>results\<close> threaded; \<open>break\<close> after
      ten blank rows in a row. An exception of the row iterator leaves the function.\<close>
  "r1d_loop fl hdr_map st results [] = Inr results"
| "r1d_loop fl hdr_map st results (Inl e # rows) = Inl e"
| "r1d_loop fl hdr_map st results (Inr cells # rows) =
     (let row_vals = map cell_value cells
      in if is_blank_row row_vals then
           (let st = st\<lparr>blank_streak := blank_streak st + 1\<rparr>
            in if blank_streak st \<ge> 10 then Inr results else r1d_loop fl hdr_map st results rows)
         else
           (let st = st\<lparr>blank_streak := 0\<rparr>;
                (st, out) = r1d_row fl hdr_map st row_vals
            in r1d_loop fl hdr_map st (results @ out) rows))"

definition parse_r1d_sheet :: "'f float_ops \<Rightarrow> 'f sheet \<Rightarrow> nat \<Rightarrow> header_map \<Rightarrow> py_error + 'f cost_line list" where
  \<comment> \<open>\<open>_parse_r1d_sheet\<close>: the rows from \<open>header_row + 1\<close> on.\<close>
  "parse_r1d_sheet fl sheet header_row hdr_map = r1d_loop fl hdr_map walker_init [] (drop header_row sheet)"

definition guard_ok :: "string \<Rightarrow> bool" where
  \<comment> \<open>What the double-count guard leaves of a category text in the output.\<close>
  "guard_ok cc =
     (\<not> (py_in ''totals'' (py_lower cc) \<and> py_in ''sum of'' (py_lower cc))
      \<and> cc \<noteq> ''Sum of Project Totals''
      \<and> (py_lower cc = ''project totals'' \<longrightarrow> cc = ''Project Totals''))"

section \<open>Workbooks (\<open>_parse_xlsx_file\<close>) and the entry point\<close>

definition generic_record :: "'f float_ops \<Rightarrow> header_map \<Rightarrow> 'f row_vals \<Rightarrow> 'f cost_line" where
  "generic_record fl hdr_map row_vals =
     \<lparr>PENumber = norm (gv fl hdr_map row_vals ''PENumber''),
      PEName = norm (gv fl hdr_map row_vals ''PEName''),
      ProjectNumber = norm (gv fl hdr_map row_vals ''ProjectNumber''),
      ProjectName = norm (gv fl hdr_map row_vals ''ProjectName''),
      CostCategory = norm (gv fl hdr_map row_vals ''CostCategory''),
      FY2023_Cost = parse_float_safe_any fl (opt_str (gv fl hdr_map row_vals ''FY2023_Cost'')),
      FY2024_Cost = parse_float_safe_any fl (opt_str (gv fl hdr_map row_vals ''FY2024_Cost'')),
      FY2025_Base_Cost = parse_float_safe_any fl (opt_str (gv fl hdr_map row_vals ''FY2025_Base_Cost'')),
      R1D_Description = None\<rparr>"

fun generic_loop :: "'f float_ops \<Rightarrow> header_map \<Rightarrow> nat \<Rightarrow> 'f cost_line list \<Rightarrow> 'f sheet \<Rightarrow> py_error + 'f cost_line list" where
  \<comment> \<open>The loop over the data rows of a generic sheet; \<open>break\<close> after five blank rows.\<close>
  "generic_loop fl hdr_map streak results [] = Inr results"
| "generic_loop fl hdr_map streak results (Inl e # rows) = Inl e"
| "generic_loop fl hdr_map streak results (Inr cells # rows) =
     (let row_vals = map cell_value cells
      in if is_blank_row row_vals then
           (let streak = streak + 1
            in if streak \<ge> 5 then Inr results else generic_loop fl hdr_map streak results rows)
         else
           (let rec = generic_record fl hdr_map row_vals
            in if PENumber rec = [] \<and> ProjectNumber rec = [] then generic_loop fl hdr_map 0 results rows
               else generic_loop fl hdr_map 0 (results @ [rec]) rows))"

definition parse_sheet :: "'f float_ops \<Rightarrow> 'f sheet \<Rightarrow> py_error + 'f cost_line list" where
  \<comment> \<open>The body of \<open>for sheet in wb.worksheets\<close>: what one sheet adds to \<open>results\<close>, or the
      exception that leaves the loop. None of its statements is inside a \<open>try\<close> that
      catches more than \<open>StopIteration\<close>.\<close>
  "parse_sheet fl sheet =
     (case find_header_row fl sheet of
        Inl e \<Rightarrow> Inl e
      | Inr None \<Rightarrow> Inr []
      | Inr (Some header_row) \<Rightarrow>
          if header_row = 0 then Inr []
          else (case drop (header_row - 1) sheet of
                  [] \<Rightarrow> Inr []
                | Inl e # below \<Rightarrow> Inl e
                | Inr header_cells # below \<Rightarrow>
                    (let hdr_map = header_map_of fl (map cell_value header_cells)
                     in if hdr_map = [] then Inr []
                        else if list_all (\<lambda>k. map_of hdr_map k \<noteq> None) [''Type'', ''PENumber'', ''ProjectNumber'']
                        then parse_r1d_sheet fl sheet header_row hdr_map
                        else generic_loop fl hdr_map 0 [] (drop header_row sheet))))"

fun worksheets_loop :: "'f float_ops \<Rightarrow> 'f cost_line list \<Rightarrow> 'f sheet list \<Rightarrow> py_error + 'f cost_line list" where
  \<comment> \<open>\<open>for sheet in wb.worksheets\<close>, with \<open>results\<close> threaded.\<close>
  "worksheets_loop fl results [] = Inr results"
| "worksheets_loop fl results (sheet # sheets) =
     (case parse_sheet fl sheet of
        Inl e \<Rightarrow> Inl e
      | Inr out \<Rightarrow> worksheets_loop fl (results @ out) sheets)"

definition parse_workbook :: "'f float_ops \<Rightarrow> py_error + 'f sheet list \<Rightarrow> py_error + 'f cost_line list" where
  \<comment> \<open>\<open>_parse_xlsx_file\<close>, given what \<open>load_workbook(path, ...)\<close> returns or raises: only
      that call is inside the \<open>try\<close>.\<close>
  "parse_workbook fl loaded =
     (case loaded of
        Inl e \<Rightarrow> Inr []
      | Inr worksheets \<Rightarrow> worksheets_loop fl [] worksheets)"

text \<open>
  The files: a path that \<open>os.path.isfile\<close> accepts has a file, and a file is what the two
  readers make of it, a tree or workbook, or the exception they raise. A workbook that
  opens is the list of its worksheets, each read row by row later on.
\<close>

record 'f input_file =
  as_xml :: "py_error + xml"
  as_workbook :: "py_error + 'f sheet list"

fun after_last :: "char \<Rightarrow> string \<Rightarrow> string \<Rightarrow> string" where
  \<comment> \<open>The text after the last occurrence of a character (\<open>acc\<close> when there is none).\<close>
  "after_last ch acc [] = acc"
| "after_last ch acc (c # cs) = (if c = ch then after_last ch cs cs else after_last ch acc cs)"

definition splitext_ext :: "string \<Rightarrow> string" where
  \<comment> \<open>\<open>os.path.splitext(path)[1]\<close>: from the last dot of the last path component on,
      leading dots of the component not counted; \<open>""\<close> without such a dot.\<close>
  "splitext_ext path =
     (let base = after_last CHR ''/'' path path;
          core = dropWhile (\<lambda>c. c = CHR ''.'') base
      in if CHR ''.'' \<in> set core then CHR ''.'' # after_last CHR ''.'' core core else [])"

definition parse_path :: "'f float_ops \<Rightarrow> (string \<rightharpoonup> 'f input_file) \<Rightarrow> string \<Rightarrow> py_error + 'f cost_line list" where
  \<comment> \<open>The body of \<open>for path in xml_paths\<close>: what one path adds to \<open>results\<close>, or the
      exception that leaves the loop.\<close>
  "parse_path fl fs path =
     (case fs path of
        None \<Rightarrow> Inr []
      | Some f \<Rightarrow>
          (let ext = py_lower (splitext_ext path)
           in if ext \<in> set [''.xml'', ''.xls'', ''.xlt'', ''.mxl''] then Inr (parse_xml_tree fl (as_xml f))
              else if ext \<in> set [''.xlsx'', ''.xlsm''] then parse_workbook fl (as_workbook f)
              else (let parsed = parse_xml_tree fl (as_xml f)
                    in if parsed \<noteq> [] then Inr parsed else parse_workbook fl (as_workbook f))))"

fun parse_r3_loop :: "'f float_ops \<Rightarrow> (string \<rightharpoonup> 'f input_file) \<Rightarrow> 'f cost_line list \<Rightarrow> string list \<Rightarrow> py_error + 'f cost_line list" where
  "parse_r3_loop fl fs results [] = Inr results"
| "parse_r3_loop fl fs results (path # paths) =
     (case parse_path fl fs path of
        Inl e \<Rightarrow> Inl e
      | Inr out \<Rightarrow> parse_r3_loop fl fs (results @ out) paths)"

definition parse_r3_projects :: "'f float_ops \<Rightarrow> (string \<rightharpoonup> 'f input_file) \<Rightarrow> string list \<Rightarrow> py_error + 'f cost_line list" where
  \<comment> \<open>\<open>Inr\<close> the list the function returns, \<open>Inl\<close> the exception that leaves it (and with
      it the records gathered so far).\<close>
  "parse_r3_projects fl fs xml_paths = parse_r3_loop fl fs [] xml_paths"

section \<open>An instance of the float builtins\<close>

text \<open>
  The whole numbers among the floats are enough to run the model on concrete sheets: a
  whole float is given by its integer, \<open>float\<close> reads the numerals \<open>d\<close> and \<open>d.0\<close> with
  an optional minus sign, and \<open>str\<close> prints \<open>d.0\<close>.
\<close>

definition digit_value :: "char \<Rightarrow> nat" where
  "digit_value c = length (takeWhile (\<lambda>d. d \<noteq> c) digits09)"

definition whole_of_str :: "string \<Rightarrow> py_error + int" where
  "whole_of_str s =
     (let neg = (s \<noteq> [] \<and> hd s = CHR ''-'');
          body = (if neg then tl s else s);
          ds = (if suffix ''.0'' body then take (length body - 2) body else body)
      in if ds \<noteq> [] \<and> list_all (\<lambda>c. c \<in> set digits09) ds
         then (let n = int (foldl (\<lambda>acc c. 10 * acc + digit_value c) 0 ds) in Inr (if neg then - n else n))
         else Inl ValueError)"

definition whole_floats :: "int float_ops" where
  "whole_floats =
     \<lparr>float_of_str = whole_of_str,
      float_of_int = (\<lambda>i. Inr i),
      str_of_float = (\<lambda>i. str_of_int i @ ''.0'')\<rparr>"

section \<open>Python's \<open>float\<close> on strings and ints\<close>

text \<open>
  The builtin \<open>float\<close> as the numeric parser meets it. A float is modelled by the number
  it stands for: \<open>Finite q\<close> is the double nearest to the rational \<open>q\<close>, \<open>Infinity neg\<close> is
  \<open>inf\<close> or \<open>-inf\<close>, and \<open>NaN\<close> is \<open>nan\<close>. Rounding is modelled where it changes the kind
  of the result: a number of magnitude at most \<open>2 ** -1075\<close> (half the least positive
  double) rounds to zero, a number of magnitude \<open>2 ** 1024 - 2 ** 970\<close> or more rounds to
  infinity, and the rounding of the mantissa in between is left out.

  \<open>float(s)\<close> trims \<open>s\<close> and reads an optional sign followed by \<open>inf\<close>, \<open>infinity\<close> or
  \<open>nan\<close> in any case, or by a numeral: digits with an optional point (\<open>12\<close>, \<open>12.5\<close>,
  \<open>.5\<close>, \<open>12.\<close>), an optional exponent (\<open>e\<close> or \<open>E\<close>, an optional sign, digits), and single
  underscores between digits. Anything else raises \<open>ValueError\<close>.
\<close>

datatype pyfloat = Finite rat | Infinity bool | NaN

definition round_double :: "rat \<Rightarrow> pyfloat" where
  \<comment> \<open>The double nearest to a number, ties to even.\<close>
  "round_double q =
     (if \<bar>q\<bar> \<le> 1 / 2 ^ 1075 then Finite 0
      else if 2 ^ 1024 - 2 ^ 970 \<le> \<bar>q\<bar> then Infinity (q < 0)
      else Finite q)"

definition is_digit :: "char \<Rightarrow> bool" where
  "is_digit c = (c \<in> set digits09)"

definition nat_of_digits :: "string \<Rightarrow> nat" where
  \<comment> \<open>The whole number a string of digits writes.\<close>
  "nat_of_digits ds = foldl (\<lambda>acc c. 10 * acc + digit_value c) 0 ds"

fun digit_run :: "string \<Rightarrow> string \<times> string" where
  \<comment> \<open>After a digit: the digits that follow, single underscores between digits skipped,
      and the text left.\<close>
  "digit_run [] = ([], [])"
| "digit_run (c # cs) =
     (if is_digit c then (case digit_run cs of (ds, r) \<Rightarrow> (c # ds, r))
      else if c = CHR ''_'' \<and> (case cs of [] \<Rightarrow> False | d # ds \<Rightarrow> is_digit d) then digit_run cs
      else ([], c # cs))"

definition digitpart :: "string \<Rightarrow> (string \<times> string) option" where
  \<comment> \<open>\<open>digit (["_"] digit)*\<close> at the start of the text: its digits and the text left.\<close>
  "digitpart s =
     (case s of
        [] \<Rightarrow> None
      | c # cs \<Rightarrow> if is_digit c then (case digit_run cs of (ds, r) \<Rightarrow> Some (c # ds, r)) else None)"

definition mantissa_of :: "string \<Rightarrow> (string \<times> string \<times> string) option" where
  \<comment> \<open>The digits before the point, the digits after it, and the text left.\<close>
  "mantissa_of s =
     (case s of
        [] \<Rightarrow> None
      | c # cs \<Rightarrow>
          if c = CHR ''.'' then (case digitpart cs of None \<Rightarrow> None | Some (fp, r) \<Rightarrow> Some ([], fp, r))
          else (case digitpart s of
                  None \<Rightarrow> None
                | Some (ip, r) \<Rightarrow>
                    (case r of
                       [] \<Rightarrow> Some (ip, [], [])
                     | d # r' \<Rightarrow>
                         if d = CHR ''.'' then (case digitpart r' of None \<Rightarrow> Some (ip, [], r')
                                               | Some (fp, r'') \<Rightarrow> Some (ip, fp, r''))
                         else Some (ip, [], r))))"

definition unsigned :: "string \<Rightarrow> string" where
  \<comment> \<open>The text without its sign, if it starts with one.\<close>
  "unsigned t = (if t \<noteq> [] \<and> (hd t = CHR ''-'' \<or> hd t = CHR ''+'') then tl t else t)"

definition exponent_of :: "string \<Rightarrow> int option" where
  \<comment> \<open>The exponent written by what follows the mantissa: nothing, or \<open>e\<close>, a sign and
      digits up to the end of the text.\<close>
  "exponent_of s =
     (case s of
        [] \<Rightarrow> Some 0
      | c # cs \<Rightarrow>
          if c = CHR ''e'' \<or> c = CHR ''E'' then
            (case digitpart (unsigned cs) of
               Some (es, []) \<Rightarrow>
                 Some (if cs \<noteq> [] \<and> hd cs = CHR ''-'' then - int (nat_of_digits es) else int (nat_of_digits es))
             | _ \<Rightarrow> None)
          else None)"

definition scale10 :: "rat \<Rightarrow> int \<Rightarrow> rat" where
  \<comment> \<open>\<open>q\<close> times ten to the power \<open>e\<close>\<close>
  "scale10 q e = (if 0 \<le> e then q * 10 ^ nat e else q / 10 ^ nat (- e))"

definition finite_of :: "string \<Rightarrow> rat option" where
  \<comment> \<open>The number an unsigned numeral writes.\<close>
  "finite_of s =
     (case mantissa_of s of
        None \<Rightarrow> None
      | Some (ip, fp, r) \<Rightarrow>
          (case exponent_of r of
             None \<Rightarrow> None
           | Some e \<Rightarrow> Some (scale10 (of_nat (nat_of_digits (ip @ fp))) (e - int (length fp)))))"

definition py_float_of_str :: "string \<Rightarrow> py_error + pyfloat" where
  \<comment> \<open>\<open>float(s)\<close> for a \<open>str\<close>\<close>
  "py_float_of_str s0 =
     (let s = py_strip s0;
          neg = (s \<noteq> [] \<and> hd s = CHR ''-'');
          body = unsigned s;
          low = py_lower body
      in if low = ''inf'' \<or> low = ''infinity'' then Inr (Infinity neg)
         else if low = ''nan'' then Inr NaN
         else (case finite_of body of
                 None \<Rightarrow> Inl ValueError
               | Some q \<Rightarrow> Inr (round_double (if neg then - q else q))))"

definition py_float_of_int :: "int \<Rightarrow> py_error + pyfloat" where
  \<comment> \<open>\<open>float(i)\<close> for an \<open>int\<close>: \<open>OverflowError\<close> from the first int that rounds to
      \<open>2 ** 1024\<close>.\<close>
  "py_float_of_int i =
     (if 2 ^ 1024 - 2 ^ 970 \<le> \<bar>i\<bar> then Inl OverflowError else Inr (Finite (of_int i)))"

definition py_floats :: "(pyfloat \<Rightarrow> string) \<Rightarrow> pyfloat float_ops" where
  \<comment> \<open>The builtins on this model of the floats; how \<open>str\<close> prints a float is left open.\<close>
  "py_floats str = \<lparr>float_of_str = py_float_of_str, float_of_int = py_float_of_int, str_of_float = str\<rparr>"

text \<open>
  The words of the specification, on the text of a numeral. A decimal numeral is an
  optional sign and digits with at most one point, at least one digit in all. Its value is
  the whole number its digits write, divided by ten to the number of digits after the
  point, negated after a minus sign. More generally the mantissa of a numeral is its text
  before an exponent mark (\<open>e\<close> or \<open>E\<close>), its exponent is the whole number written after
  the mark, and the numeral stands for the value of its mantissa times ten to the
  exponent. A numeral denotes zero when its mantissa has a digit and no digit but \<open>0\<close>.
\<close>

definition valid_decimal_numeral :: "string \<Rightarrow> bool" where
  "valid_decimal_numeral t =
     (let body = unsigned t; ip = takeWhile is_digit body; r = dropWhile is_digit body
      in case r of
           [] \<Rightarrow> ip \<noteq> []
         | c # fp \<Rightarrow> c = CHR ''.'' \<and> list_all is_digit fp \<and> (ip \<noteq> [] \<or> fp \<noteq> []))"

definition decimal_value :: "string \<Rightarrow> rat" where
  "decimal_value t =
     (let q = of_nat (nat_of_digits (filter is_digit t))
                / 10 ^ length (filter is_digit (dropWhile (\<lambda>c. c \<noteq> CHR ''.'') t))
      in if t \<noteq> [] \<and> hd t = CHR ''-'' then - q else q)"

definition exp_mark :: "char \<Rightarrow> bool" where
  "exp_mark c = (c = CHR ''e'' \<or> c = CHR ''E'')"

definition mantissa_text :: "string \<Rightarrow> string" where
  "mantissa_text t = takeWhile (\<lambda>c. \<not> exp_mark c) t"

definition exponent_text :: "string \<Rightarrow> string" where
  "exponent_text t = drop 1 (dropWhile (\<lambda>c. \<not> exp_mark c) t)"

definition int_of_text :: "string \<Rightarrow> int" where
  "int_of_text t =
     (let n = int (nat_of_digits (filter is_digit t))
      in if t \<noteq> [] \<and> hd t = CHR ''-'' then - n else n)"

definition numeral_value :: "string \<Rightarrow> rat" where
  "numeral_value t = scale10 (decimal_value (mantissa_text t)) (int_of_text (exponent_text t))"

definition numeral_chars :: "string \<Rightarrow> bool" where
  \<comment> \<open>Nothing but digits, point, underscore, exponent mark and signs, and a digit at least.\<close>
  "numeral_chars t =
     (filter is_digit t \<noteq> [] \<and> list_all (\<lambda>c. c \<in> set ''0123456789._eE+-'') t)"

definition special_name :: "string \<Rightarrow> bool" where
  \<comment> \<open>The names of the floats that are no numbers, in any case and with an optional sign.\<close>
  "special_name t = (py_lower (unsigned t) \<in> set [''inf'', ''infinity'', ''nan''])"

definition zero_digits :: "string \<Rightarrow> bool" where
  "zero_digits t =
     (filter is_digit (mantissa_text t) \<noteq> []
      \<and> filter (\<lambda>c. is_digit c \<and> c \<noteq> CHR ''0'') (mantissa_text t) = [])"

definition denotes_zero :: "pyfloat pyval \<Rightarrow> bool" where
  \<comment> \<open>The inputs that denote zero: the numbers \<open>0\<close>, \<open>0.0\<close> and \<open>False\<close>, and the texts
      whose numeral, commas removed and trimmed, has only zeros in its mantissa.\<close>
  "denotes_zero v =
     (case v of
        PNone \<Rightarrow> False
      | PInt i \<Rightarrow> i = 0
      | PFloat x \<Rightarrow> x = Finite 0
      | PBool b \<Rightarrow> \<not> b
      | PStr s \<Rightarrow> zero_digits (py_strip (remove_commas s))
      | PObj s \<Rightarrow> zero_digits (py_strip (remove_commas s)))"

definition underflows :: "pyfloat pyval \<Rightarrow> bool" where
  \<comment> \<open>The texts whose numeral stands for a number too small for a float.\<close>
  "underflows v =
     (case v of
        PStr s \<Rightarrow> \<bar>numeral_value (py_strip (remove_commas s))\<bar> \<le> 1 / 2 ^ 1075
      | PObj s \<Rightarrow> \<bar>numeral_value (py_strip (remove_commas s))\<bar> \<le> 1 / 2 ^ 1075
      | _ \<Rightarrow> False)"

section \<open>The worksheet of the specification's scenario\<close>

definition scenario_header :: "'f row_vals" where
  "scenario_header =
     [PStr ''Type'', PStr ''PE#'', PStr ''Project#'', PStr ''Accomplishments/Planned Programs Title'',
      PStr ''Description'', PStr ''FY2023'', PStr ''FY2024'', PStr ''FY2025 Base'']"

definition scenario_pe_row :: "'f row_vals" where
  "scenario_pe_row = [PStr ''PE'', PStr ''0604123X'', PNone, PStr ''Hypersonics'', PNone, PNone, PNone, PNone]"

definition scenario_project_row :: "'f \<Rightarrow> 'f \<Rightarrow> 'f \<Rightarrow> 'f row_vals" where
  "scenario_project_row a b c =
     [PStr ''PROJECT'', PNone, PStr ''001'', PStr ''Flight Test'', PNone, PFloat a, PFloat b, PFloat c]"

definition scenario_sheet :: "'f \<Rightarrow> 'f \<Rightarrow> 'f \<Rightarrow> 'f sheet" where
  "scenario_sheet a b c = sheet_of_values [scenario_header, scenario_pe_row, scenario_project_row a b c]"

definition scenario_hdr_map :: header_map where
  "scenario_hdr_map =
     [(''Type'', 0), (''PENumber'', 1), (''ProjectNumber'', 2), (''Title'', 3), (''Description'', 4),
      (''FY2023_Cost'', 5), (''FY2024_Cost'', 6), (''FY2025_Base_Cost'', 7)]"

definition scenario_record :: "'f \<Rightarrow> 'f \<Rightarrow> 'f \<Rightarrow> 'f cost_line" where
  "scenario_record a b c =
     \<lparr>PENumber = ''0604123X'', PEName = ''Hypersonics'', ProjectNumber = ''001'',
      ProjectName = ''Flight Test'', CostCategory = ''Project Totals'',
      FY2023_Cost = Some a, FY2024_Cost = Some b, FY2025_Base_Cost = Some c,
      R1D_Description = Some []\<rparr>"

text \<open>Three more rows for the same header: a summary row, a row without a type, a leaf row.\<close>

definition summary_row :: "int row_vals" where
  "summary_row = [PStr ''CA'', PNone, PNone, PStr ''Sum of Project Totals'', PNone, PFloat 10, PFloat 12, PFloat 15]"

definition untyped_row :: "int row_vals" where
  "untyped_row = [PNone, PNone, PNone, PStr ''note'', PNone, PFloat 10, PFloat 12, PFloat 15]"

definition leaf_row :: "int row_vals" where
  "leaf_row = [PStr ''A/PP'', PNone, PNone, PStr ''Wind tunnel'', PStr ''d'', PFloat 1, PStr ''1,000'', PStr ''n/a'']"

definition walk_sheet :: "int sheet" where
  "walk_sheet = scenario_sheet 10 12 15 @ sheet_of_values [summary_row, untyped_row, leaf_row]"

definition demo_ctx :: walker where
  "demo_ctx = \<lparr>current_pe_num = Some ''0604123X'', current_pe_name = Some ''Hypersonics'',
                current_proj_num = Some ''001'', current_proj_name = Some ''Flight Test'', blank_streak = 0\<rparr>"

section \<open>Example files\<close>

text \<open>
  An XML file whose one program element has a number made of a single space, with one
  project and one cost line below it; and a small file system.
\<close>

definition blank_pe_xml :: xml where
  "blank_pe_xml =
     Elem ''Root'' [] None
       [Elem ''PE'' [(''number'', '' '')] None
          [Elem ''Project'' [] None [Elem ''Line'' [] None []]]]"

definition blank_line :: "'f cost_line" where
  "blank_line =
     \<lparr>PENumber = [], PEName = [], ProjectNumber = [], ProjectName = [], CostCategory = [],
      FY2023_Cost = None, FY2024_Cost = None, FY2025_Base_Cost = None, R1D_Description = None\<rparr>"

text \<open>
  Two more worksheets: the scenario's sheet below a first row whose cell A1 is missing
  (the row holds a note in column B), and the scenario's sheet torn after its last row.
\<close>

definition gap_sheet :: "int sheet" where
  "gap_sheet = Inr [EmptyCell, ReadOnlyCell (PStr ''Budget exhibit'')] # scenario_sheet 10 12 15"

definition torn_sheet :: "int sheet" where
  "torn_sheet = scenario_sheet 10 12 15 @ [Inl ParseError]"

definition demo_fs :: "string \<rightharpoonup> int input_file" where
  "demo_fs =
     [''bad.xlsx'' \<mapsto> \<lparr>as_xml = Inl ParseError, as_workbook = Inl ParseError\<rparr>,
      ''good.xlsx'' \<mapsto> \<lparr>as_xml = Inl ParseError, as_workbook = Inr [scenario_sheet 10 12 15]\<rparr>,
      ''blank.xml'' \<mapsto> \<lparr>as_xml = Inr blank_pe_xml, as_workbook = Inl ParseError\<rparr>,
      ''gap.xlsx'' \<mapsto> \<lparr>as_xml = Inl ParseError, as_workbook = Inr [gap_sheet]\<rparr>,
      ''torn.xlsx'' \<mapsto> \<lparr>as_xml = Inl ParseError, as_workbook = Inr [torn_sheet]\<rparr>]"

text \<open>The retention invariant of the data model: some identifier of the record is not empty.\<close>

definition identified :: "'f cost_line \<Rightarrow> bool" where
  "identified r = (PENumber r \<noteq> [] \<or> ProjectNumber r \<noteq> [] \<or> CostCategory r \<noteq> [])"

section \<open>Properties of the fusion\<close>

lemma fuse_loop_map:
  "fuse_loop src lk flag acc rows = acc @ map (fuse_row src lk flag) rows"
  by (induction rows arbitrary: acc) simp_all

lemma fuse_r3_with_r2_map:
  "fuse_r3_with_r2 src rows lk flag = map (fuse_row src lk flag) rows"
  by (simp add: fuse_r3_with_r2_def fuse_loop_map)

lemma py_or_str_Some_Nil: "py_or_str (Some s) [] = s"
  by (simp add: py_or_str_def)

lemma fuse_row_copies:
  "e_SourceFile (fuse_row src lk flag row) = src"
  "e_PENumber (fuse_row src lk flag row) = PENumber row"
  "e_PEName (fuse_row src lk flag row) = PEName row"
  "e_ProjectNumber (fuse_row src lk flag row) = ProjectNumber row"
  "e_ProjectName (fuse_row src lk flag row) = ProjectName row"
  "e_CostCategory (fuse_row src lk flag row) = CostCategory row"
  "e_FY2023_Cost (fuse_row src lk flag row) = FY2023_Cost row"
  "e_FY2024_Cost (fuse_row src lk flag row) = FY2024_Cost row"
  "e_FY2025_Base_Cost (fuse_row src lk flag row) = FY2025_Base_Cost row"
  by (simp_all add: fuse_row_def Let_def)

lemma fuse_row_narrative:
  "e_AcquisitionStrategyText (fuse_row src lk flag row) = acquisition (bundle_for lk row)"
  "e_IsNewStart (fuse_row src lk flag row) = decode_new_start (is_new_start (bundle_for lk row))"
  "e_AccomplishmentsText (fuse_row src lk flag row) =
     (if flag \<and> \<not> truthy (accomplishments (bundle_for lk row)) \<and> r1d_desc_of row \<noteq> []
      then Some (r1d_desc_of row) else accomplishments (bundle_for lk row))"
  "e_MissionDescriptionText (fuse_row src lk flag row) =
     (if flag \<and> \<not> truthy (mission (bundle_for lk row)) \<and> r1d_desc_of row \<noteq> []
      then Some (r1d_desc_of row) else mission (bundle_for lk row))"
  by (simp_all add: fuse_row_def Let_def bundle_for_def r1d_desc_of_def py_or_str_Some_Nil)

text \<open>
  C2, as amended. The fusion returns one record for each cost line, in the order of the
  lines: the result is as long as the input, and its \<open>i\<close>-th record carries the source
  label and the identifiers and costs of the \<open>i\<close>-th line, whatever the lookup holds and
  whatever the fallback flag. A line whose trimmed \<open>PENumber\<close> has no bundle still has its
  record, with no acquisition text and no new-start flag; its accomplishments and mission
  texts are null too, unless the description fallback is on and the line has a non-empty
  trimmed \<open>R1D_Description\<close>, which then stands for both.
\<close>

theorem fuse_one_record_per_row:
  "length (fuse_r3_with_r2 src rows lk flag) = length rows
   \<and> (\<forall>i < length rows.
         (let r = fuse_r3_with_r2 src rows lk flag ! i; row = rows ! i
          in e_SourceFile r = src \<and> e_PENumber r = PENumber row \<and> e_PEName r = PEName row
             \<and> e_ProjectNumber r = ProjectNumber row \<and> e_ProjectName r = ProjectName row
             \<and> e_CostCategory r = CostCategory row \<and> e_FY2023_Cost r = FY2023_Cost row
             \<and> e_FY2024_Cost r = FY2024_Cost row \<and> e_FY2025_Base_Cost r = FY2025_Base_Cost row
             \<and> (lk (py_strip (PENumber row)) = None \<longrightarrow>
                  e_AcquisitionStrategyText r = None \<and> e_IsNewStart r = None
                  \<and> e_AccomplishmentsText r =
                      (if flag \<and> r1d_desc_of row \<noteq> [] then Some (r1d_desc_of row) else None)
                  \<and> e_MissionDescriptionText r =
                      (if flag \<and> r1d_desc_of row \<noteq> [] then Some (r1d_desc_of row) else None))))"
  by (simp add: fuse_r3_with_r2_map fuse_row_copies fuse_row_narrative bundle_for_def empty_bundle_def
        decode_new_start_def truthy_def Let_def)

theorem fuse_one_record_per_row_witness:
  "length (fuse_r3_with_r2 ''jbook.pdf'' demo_rows demo_lookup False) = 2
   \<and> e_PENumber (fuse_r3_with_r2 ''jbook.pdf'' demo_rows demo_lookup False ! 1) = '' 0602000A ''
   \<and> e_FY2024_Cost (fuse_r3_with_r2 ''jbook.pdf'' demo_rows demo_lookup False ! 1) = Some 3
   \<and> e_MissionDescriptionText (fuse_r3_with_r2 ''jbook.pdf'' demo_rows demo_lookup False ! 1) = None
   \<and> e_AccomplishmentsText (fuse_r3_with_r2 ''jbook.pdf'' demo_rows demo_lookup False ! 1) = None
   \<and> e_AcquisitionStrategyText (fuse_r3_with_r2 ''jbook.pdf'' demo_rows demo_lookup True ! 1) = None
   \<and> e_IsNewStart (fuse_r3_with_r2 ''jbook.pdf'' demo_rows demo_lookup False ! 1) = None"
proof -
  have len: "(1::nat) < length demo_rows"
    by (simp add: demo_rows_def)
  have nobundle: "demo_lookup (py_strip (PENumber (demo_rows ! 1))) = None"
    by (simp add: demo_rows_def demo_lookup_def py_strip_def py_isspace_def)
  from fuse_one_record_per_row [of "''jbook.pdf''" demo_rows demo_lookup False]
       fuse_one_record_per_row [of "''jbook.pdf''" demo_rows demo_lookup True] len nobundle
  show ?thesis
    by (simp add: Let_def demo_rows_def)
qed

text \<open>
  C2 as stated fails in its parenthesis: with the description fallback on, the second
  demo line, whose trimmed \<open>PENumber\<close> has no bundle, gets its description as mission
  and accomplishments text, not null.
\<close>

theorem no_bundle_fallback_counterexample:
  "demo_lookup (py_strip (PENumber (demo_rows ! 1))) = None
   \<and> length (fuse_r3_with_r2 ''jbook.pdf'' demo_rows demo_lookup True) = 2
   \<and> e_MissionDescriptionText (fuse_r3_with_r2 ''jbook.pdf'' demo_rows demo_lookup True ! 1)
       = Some ''Radar prototype''
   \<and> e_AccomplishmentsText (fuse_r3_with_r2 ''jbook.pdf'' demo_rows demo_lookup True ! 1)
       = Some ''Radar prototype''"
  by (simp add: fuse_r3_with_r2_map fuse_row_def demo_rows_def demo_lookup_def empty_bundle_def Let_def
        truthy_def py_or_str_def py_strip_def py_isspace_def)

text \<open>
  C3. The fallback policy. For the record of every cost line, with \<open>b\<close> the bundle of the
  line and \<open>d\<close> its trimmed \<open>R1D_Description\<close>: the acquisition text is the bundle's; with
  the flag off, mission and accomplishments are the bundle's too, \<open>None\<close> staying \<open>None\<close>,
  whatever \<open>d\<close> is; with the flag on, \<open>d\<close> stands in for accomplishments exactly when
  the bundle's accomplishments are null or empty and \<open>d\<close> is not empty, and the same,
  independently, for the mission; a non-empty text of the bundle is never replaced.
\<close>

theorem fusion_fallback_policy:
  "\<forall>i < length rows.
     (let r = fuse_r3_with_r2 src rows lk flag ! i; row = rows ! i;
          b = bundle_for lk row; d = r1d_desc_of row
      in e_AcquisitionStrategyText r = acquisition b
         \<and> (\<not> flag \<longrightarrow> e_MissionDescriptionText r = mission b
                        \<and> e_AccomplishmentsText r = accomplishments b)
         \<and> (flag \<longrightarrow> e_AccomplishmentsText r =
                         (if \<not> truthy (accomplishments b) \<and> d \<noteq> [] then Some d else accomplishments b)
                     \<and> e_MissionDescriptionText r =
                         (if \<not> truthy (mission b) \<and> d \<noteq> [] then Some d else mission b))
         \<and> (truthy (mission b) \<longrightarrow> e_MissionDescriptionText r = mission b)
         \<and> (truthy (accomplishments b) \<longrightarrow> e_AccomplishmentsText r = accomplishments b))"
  by (simp add: fuse_r3_with_r2_map fuse_row_narrative Let_def)

theorem fusion_fallback_policy_witness:
  "e_AccomplishmentsText (fuse_r3_with_r2 ''jbook.pdf'' demo_rows demo_lookup True ! 0) = Some ''Test flights''
   \<and> e_MissionDescriptionText (fuse_r3_with_r2 ''jbook.pdf'' demo_rows demo_lookup True ! 0) = Some ''Develops X.''
   \<and> e_AcquisitionStrategyText (fuse_r3_with_r2 ''jbook.pdf'' demo_rows demo_lookup True ! 0) = Some ''Sole source.''
   \<and> e_AccomplishmentsText (fuse_r3_with_r2 ''jbook.pdf'' demo_rows demo_lookup False ! 0) = None"
proof -
  have len: "(0::nat) < length demo_rows"
    by (simp add: demo_rows_def)
  have b: "bundle_for demo_lookup (demo_rows ! 0) =
             \<lparr>mission = Some ''Develops X.'', accomplishments = None,
              acquisition = Some ''Sole source.'', is_new_start = Some ''True''\<rparr>"
    by (simp add: bundle_for_def demo_rows_def demo_lookup_def py_strip_def py_isspace_def)
  have d: "r1d_desc_of (demo_rows ! 0) = ''Test flights''"
    by (simp add: r1d_desc_of_def demo_rows_def py_or_str_def py_strip_def py_isspace_def)
  from fusion_fallback_policy [of demo_rows "''jbook.pdf''" demo_lookup True]
       fusion_fallback_policy [of demo_rows "''jbook.pdf''" demo_lookup False] len b d
  show ?thesis
    by (simp add: Let_def truthy_def)
qed


section \<open>Properties of the numeric parser\<close>

lemma all_dropWhile: "(\<forall>x\<in>set (dropWhile P s). P x) \<longleftrightarrow> (\<forall>x\<in>set s. P x)"
  by (induction s) auto

lemma py_strip_Nil_iff: "py_strip s = [] \<longleftrightarrow> list_all py_isspace s"
  by (simp add: py_strip_def all_dropWhile list_all_iff)

lemma comma_not_space: "\<not> py_isspace CHR '',''"
  by (simp add: py_isspace_def)

lemma blank_remove_commas: "py_strip s = [] \<Longrightarrow> py_strip (remove_commas s) = []"
  by (auto simp: py_strip_Nil_iff remove_commas_def list_all_iff)

section \<open>Properties of the Row-Walker\<close>

lemma space_upper_char: "py_isspace (upper_char c) = py_isspace c"
  by (auto simp: upper_char_def py_isspace_def lower_az_def upper_AZ_def split: option.splits if_splits)

lemma strip_has_nonspace: "py_strip y \<noteq> [] \<Longrightarrow> \<exists>c\<in>set (py_strip y). \<not> py_isspace c"
proof -
  assume ne: "py_strip y \<noteq> []"
  let ?d = "dropWhile py_isspace (rev (dropWhile py_isspace y))"
  from ne have d: "?d \<noteq> []" by (simp add: py_strip_def)
  then have "\<not> py_isspace (hd ?d)" by (rule hd_dropWhile)
  moreover from d have "hd ?d \<in> set (py_strip y)" by (simp add: py_strip_def)
  ultimately show ?thesis by blast
qed

lemma strip_strip_nonempty: "py_strip y \<noteq> [] \<Longrightarrow> py_strip (py_strip y) \<noteq> []"
  using strip_has_nonspace [of y] by (auto simp: py_strip_Nil_iff list_all_iff)

lemma strip_upper_strip_nonempty: "py_strip y \<noteq> [] \<Longrightarrow> py_strip (py_upper (py_strip y)) \<noteq> []"
  using strip_has_nonspace [of y]
  by (auto simp: py_strip_Nil_iff list_all_iff py_upper_def space_upper_char)

lemma upper_Nil: "py_upper s = [] \<longleftrightarrow> s = []"
  by (simp add: py_upper_def)

lemma gv_stripped: "gv fl hdr row k = Some x \<Longrightarrow> \<exists>y. x = py_strip y"
  by (auto simp: gv_def split: option.splits if_splits pyval.splits)

lemma leaf_category_nonempty:
  assumes "row_type fl hdr row \<noteq> []"
  shows "leaf_category fl hdr row \<noteq> []"
proof -
  from assms obtain t where t: "gv fl hdr row ''Type'' = Some t" "t \<noteq> []"
    by (auto simp: row_type_def py_or_str_def py_upper_def split: option.splits if_splits)
  from gv_stripped [OF t(1)] obtain y where y: "t = py_strip y" by blast
  have tne: "py_strip (row_type fl hdr row) \<noteq> []"
    using t y strip_upper_strip_nonempty [of y] by (simp add: row_type_def py_or_str_def)
  have g: "gv fl hdr row k = Some x \<Longrightarrow> x \<noteq> [] \<Longrightarrow> py_strip x \<noteq> []" for k x
    using gv_stripped [of fl hdr row k x] strip_strip_nonempty by auto
  show ?thesis
    using tne g [of "''Title''"] g [of "''Description''"]
    by (auto simp: leaf_category_def norm_def py_or_str_def py_or_def split: option.splits if_splits)
qed

lemma r1d_row_untyped:
  "row_type fl hdr row = [] \<Longrightarrow> r1d_row fl hdr st row = (st, [])"
  by (simp add: r1d_row_def row_type_def Let_def)

lemma r1d_row_pe:
  "row_type fl hdr row = ''PE'' \<Longrightarrow>
     r1d_row fl hdr st row =
       (st\<lparr>current_pe_num := py_or (gv fl hdr row ''PENumber'') (current_pe_num st),
           current_pe_name := py_or (Some (py_or_str (gv fl hdr row ''Title'') [])) (current_pe_name st),
           current_proj_num := None, current_proj_name := None\<rparr>, [])"
  by (simp add: r1d_row_def row_type_def Let_def)

lemma r1d_row_project:
  "row_type fl hdr row \<in> set project_types \<Longrightarrow>
     \<exists>st' rec. r1d_row fl hdr st row = (st', [rec]) \<and> CostCategory rec = ''Project Totals''"
  by (auto simp: r1d_row_def row_type_def Let_def project_types_def r1d_record_def)

lemma r1d_row_leaf:
  assumes "row_type fl hdr row \<noteq> []" "row_type fl hdr row \<noteq> ''PE''" "row_type fl hdr row \<notin> set project_types"
  shows "r1d_row fl hdr st row =
           (st, if is_summary_category (leaf_category fl hdr row) then []
                else [r1d_record fl hdr st row (leaf_category fl hdr row)])"
proof -
  have cc: "CostCategory (r1d_record fl hdr st row c) = c" for c
    by (simp add: r1d_record_def)
  have typ_eq: "py_upper (py_or_str (gv fl hdr row ''Type'') []) = row_type fl hdr row"
    by (simp add: row_type_def)
  have leaf_eq: "norm (Some (py_or_str (py_or (Some (py_or_str (gv fl hdr row ''Title'') []))
                                              (gv fl hdr row ''Description''))
                                       (row_type fl hdr row))) = leaf_category fl hdr row"
    by (simp add: leaf_category_def)
  from assms leaf_category_nonempty [OF assms(1)] show ?thesis
    unfolding r1d_row_def Let_def
    by (simp add: typ_eq leaf_eq cc project_types_def)
qed


lemma lower_project_totals: "py_lower ''Project Totals'' = ''project totals''"
  by (simp add: py_lower_def lower_char_def upper_AZ_def lower_az_def)

lemma lower_sum_of_project_totals: "py_lower ''Sum of Project Totals'' = ''sum of project totals''"
  by (simp add: py_lower_def lower_char_def upper_AZ_def lower_az_def)

lemma guard_ok_project_totals: "guard_ok ''Project Totals''"
  by (simp add: guard_ok_def lower_project_totals)

lemma not_summary_guard_ok: "\<not> is_summary_category cc \<Longrightarrow> guard_ok cc"
  by (auto simp: is_summary_category_def guard_ok_def Let_def lower_sum_of_project_totals)

lemma row_type_cases:
  obtains "row_type fl hdr row = []" | "row_type fl hdr row = ''PE''"
  | "row_type fl hdr row \<in> set project_types"
  | "row_type fl hdr row \<noteq> []" "row_type fl hdr row \<noteq> ''PE''" "row_type fl hdr row \<notin> set project_types"
  by blast

lemma r1d_row_guard_ok: "rec \<in> set (snd (r1d_row fl hdr st row)) \<Longrightarrow> guard_ok (CostCategory rec)"
proof (cases rule: row_type_cases [of fl hdr row])
  case 1
  assume "rec \<in> set (snd (r1d_row fl hdr st row))"
  with 1 show ?thesis by (simp add: r1d_row_untyped)
next
  case 2
  assume "rec \<in> set (snd (r1d_row fl hdr st row))"
  with 2 show ?thesis by (simp add: r1d_row_pe)
next
  case 3
  assume "rec \<in> set (snd (r1d_row fl hdr st row))"
  with r1d_row_project [OF 3, of st] show ?thesis by (auto simp: guard_ok_project_totals)
next
  case 4
  assume "rec \<in> set (snd (r1d_row fl hdr st row))"
  with r1d_row_leaf [OF 4, of st] show ?thesis
    by (auto simp: not_summary_guard_ok r1d_record_def split: if_splits)
qed

lemma r1d_loop_invariant:
  assumes step: "\<And>st row rec. rec \<in> set (snd (r1d_row fl hdr st row)) \<Longrightarrow> P rec"
  shows "\<forall>rec\<in>set results. P rec \<Longrightarrow> r1d_loop fl hdr st results rows = Inr recs
         \<Longrightarrow> \<forall>rec\<in>set recs. P rec"
proof (induction rows arbitrary: st results)
  case Nil
  then show ?case by simp
next
  case (Cons item rows)
  show ?case
  proof (cases item)
    case (Inl e)
    with Cons.prems show ?thesis by simp
  next
    case (Inr cells)
    let ?row = "map cell_value cells"
    show ?thesis
    proof (cases "is_blank_row ?row")
      case True
      show ?thesis
      proof (cases "10 \<le> blank_streak st + 1")
        case True
        with \<open>is_blank_row ?row\<close> Inr Cons.prems show ?thesis by (simp add: Let_def)
      next
        case False
        with \<open>is_blank_row ?row\<close> Inr Cons.prems
        have "r1d_loop fl hdr (st\<lparr>blank_streak := blank_streak st + 1\<rparr>) results rows = Inr recs"
          by (simp add: Let_def)
        from Cons.IH [OF Cons.prems(1) this] show ?thesis .
      qed
    next
      case False
      obtain st' out where r: "r1d_row fl hdr (st\<lparr>blank_streak := 0\<rparr>) ?row = (st', out)"
        by (cases "r1d_row fl hdr (st\<lparr>blank_streak := 0\<rparr>) ?row")
      with step [of _ "st\<lparr>blank_streak := 0\<rparr>" ?row] have "\<forall>rec\<in>set out. P rec" by simp
      with Cons.prems(1) have all: "\<forall>rec\<in>set (results @ out). P rec" by auto
      from False Inr r Cons.prems(2) have "r1d_loop fl hdr st' (results @ out) rows = Inr recs"
        by (simp add: Let_def)
      from Cons.IH [OF all this] show ?thesis .
    qed
  qed
qed

text \<open>
  C4. The double-count guard. Whatever the worksheet, no record of the Row-Walker has a
  category text that, lower-cased, contains both "totals" and "sum of"; in particular
  none has the text "Sum of Project Totals"; and a record whose category lower-cases to
  "project totals" is one the PROJECT branch made (its text is the literal
  "Project Totals"). Row by row: a row that is not a PROJECT row emits no record whose
  category passes the summary test, and a PROJECT row emits only "Project Totals".
\<close>

theorem r1d_double_count_guard:
  "(parse_r1d_sheet fl sheet header_row hdr = Inr recs \<longrightarrow>
     (\<forall>rec \<in> set recs.
        \<not> (py_in ''totals'' (py_lower (CostCategory rec)) \<and> py_in ''sum of'' (py_lower (CostCategory rec)))
        \<and> CostCategory rec \<noteq> ''Sum of Project Totals''
        \<and> (py_lower (CostCategory rec) = ''project totals'' \<longrightarrow> CostCategory rec = ''Project Totals'')))
   \<and> (row_type fl hdr row \<notin> set project_types \<longrightarrow>
        (\<forall>rec \<in> set (snd (r1d_row fl hdr st row)). \<not> is_summary_category (CostCategory rec)))
   \<and> (row_type fl hdr row \<in> set project_types \<longrightarrow>
        (\<forall>rec \<in> set (snd (r1d_row fl hdr st row)). CostCategory rec = ''Project Totals''))"
proof (intro conjI)
  show "parse_r1d_sheet fl sheet header_row hdr = Inr recs \<longrightarrow>
     (\<forall>rec \<in> set recs.
        \<not> (py_in ''totals'' (py_lower (CostCategory rec)) \<and> py_in ''sum of'' (py_lower (CostCategory rec)))
        \<and> CostCategory rec \<noteq> ''Sum of Project Totals''
        \<and> (py_lower (CostCategory rec) = ''project totals'' \<longrightarrow> CostCategory rec = ''Project Totals''))"
  proof
    assume "parse_r1d_sheet fl sheet header_row hdr = Inr recs"
    then have run: "r1d_loop fl hdr walker_init [] (drop header_row sheet) = Inr recs"
      by (simp add: parse_r1d_sheet_def)
    have "\<forall>rec\<in>set recs. guard_ok (CostCategory rec)"
      by (rule r1d_loop_invariant [where P = "\<lambda>rec. guard_ok (CostCategory rec)", OF _ _ run])
         (simp_all add: r1d_row_guard_ok)
    then show "\<forall>rec \<in> set recs.
        \<not> (py_in ''totals'' (py_lower (CostCategory rec)) \<and> py_in ''sum of'' (py_lower (CostCategory rec)))
        \<and> CostCategory rec \<noteq> ''Sum of Project Totals''
        \<and> (py_lower (CostCategory rec) = ''project totals'' \<longrightarrow> CostCategory rec = ''Project Totals'')"
      by (simp add: guard_ok_def)
  qed
next
  show "row_type fl hdr row \<notin> set project_types \<longrightarrow>
        (\<forall>rec \<in> set (snd (r1d_row fl hdr st row)). \<not> is_summary_category (CostCategory rec))"
  proof (cases rule: row_type_cases [of fl hdr row])
    case 1
    then show ?thesis by (simp add: r1d_row_untyped)
  next
    case 2
    then show ?thesis by (simp add: r1d_row_pe)
  next
    case 3
    then show ?thesis by simp
  next
    case 4
    from r1d_row_leaf [OF 4, of st] show ?thesis by (simp add: r1d_record_def)
  qed
next
  show "row_type fl hdr row \<in> set project_types \<longrightarrow>
        (\<forall>rec \<in> set (snd (r1d_row fl hdr st row)). CostCategory rec = ''Project Totals'')"
  proof
    assume "row_type fl hdr row \<in> set project_types"
    from r1d_row_project [OF this, of st] show "\<forall>rec \<in> set (snd (r1d_row fl hdr st row)). CostCategory rec = ''Project Totals''"
      by auto
  qed
qed

theorem r1d_double_count_guard_witness:
  "parse_r1d_sheet whole_floats walk_sheet 1 scenario_hdr_map =
     Inr [scenario_record 10 12 15, r1d_record whole_floats scenario_hdr_map demo_ctx leaf_row ''Wind tunnel'']
   \<and> list_all (\<lambda>rec. CostCategory rec \<noteq> ''Sum of Project Totals'')
        [scenario_record 10 12 15, r1d_record whole_floats scenario_hdr_map demo_ctx leaf_row ''Wind tunnel'']
   \<and> row_type whole_floats scenario_hdr_map summary_row = ''CA''
   \<and> snd (r1d_row whole_floats scenario_hdr_map demo_ctx summary_row) = []"
proof -
  have out: "parse_r1d_sheet whole_floats walk_sheet 1 scenario_hdr_map =
     Inr [scenario_record 10 12 15, r1d_record whole_floats scenario_hdr_map demo_ctx leaf_row ''Wind tunnel'']"
    by code_simp
  have ty: "row_type whole_floats scenario_hdr_map summary_row = ''CA''"
    by code_simp
  have sm: "is_summary_category (leaf_category whole_floats scenario_hdr_map summary_row)"
    by code_simp
  have "snd (r1d_row whole_floats scenario_hdr_map demo_ctx summary_row) = []"
  proof (rule ccontr)
    assume "snd (r1d_row whole_floats scenario_hdr_map demo_ctx summary_row) \<noteq> []"
    then obtain rec where rec: "rec \<in> set (snd (r1d_row whole_floats scenario_hdr_map demo_ctx summary_row))"
      by (cases "snd (r1d_row whole_floats scenario_hdr_map demo_ctx summary_row)") auto
    have leaf: "row_type whole_floats scenario_hdr_map summary_row \<noteq> []"
      "row_type whole_floats scenario_hdr_map summary_row \<noteq> ''PE''"
      "row_type whole_floats scenario_hdr_map summary_row \<notin> set project_types"
      by (simp_all add: ty project_types_def)
    from rec r1d_row_leaf [OF leaf, of demo_ctx] sm show False by simp
  qed
  moreover from r1d_double_count_guard
      [of whole_floats walk_sheet 1 scenario_hdr_map
          "[scenario_record 10 12 15, r1d_record whole_floats scenario_hdr_map demo_ctx leaf_row ''Wind tunnel'']"
          summary_row demo_ctx] out
  have "list_all (\<lambda>rec. CostCategory rec \<noteq> ''Sum of Project Totals'')
          [scenario_record 10 12 15, r1d_record whole_floats scenario_hdr_map demo_ctx leaf_row ''Wind tunnel'']"
    by (simp add: list_all_iff)
  ultimately show ?thesis using out ty by simp
qed


lemma r1d_row_project_eq:
  "row_type fl hdr row \<in> set project_types \<Longrightarrow>
     r1d_row fl hdr st row =
       (project_ctx fl hdr st row, [r1d_record fl hdr (project_ctx fl hdr st row) row ''Project Totals''])"
  by (auto simp: r1d_row_def row_type_def Let_def project_types_def project_ctx_def)

text \<open>
  C10, as amended. A row whose Type is empty or missing appends no record and returns the
  context it was given; when it is not blank, the walk goes on from the next row with the
  same context and results. A row with a non-empty Type sets the context and appends
  nothing (PE), sets the project and appends its "Project Totals" record (PROJECT,
  PROJECTS, PRJ), or is a leaf row: it leaves the context alone and appends its record,
  unless its category is a summary text, in which case it appends nothing either.
\<close>

theorem r1d_row_by_type:
  "(row_type fl hdr row = [] \<longrightarrow> r1d_row fl hdr st row = (st, []))
   \<and> (map cell_value cells = row \<and> \<not> is_blank_row row \<and> row_type fl hdr row = [] \<longrightarrow>
        r1d_loop fl hdr st results (Inr cells # rows) = r1d_loop fl hdr (st\<lparr>blank_streak := 0\<rparr>) results rows)
   \<and> (row_type fl hdr row = ''PE'' \<longrightarrow> r1d_row fl hdr st row = (pe_ctx fl hdr st row, []))
   \<and> (row_type fl hdr row \<in> set project_types \<longrightarrow>
        r1d_row fl hdr st row =
          (project_ctx fl hdr st row, [r1d_record fl hdr (project_ctx fl hdr st row) row ''Project Totals'']))
   \<and> (row_type fl hdr row \<noteq> [] \<and> row_type fl hdr row \<noteq> ''PE'' \<and> row_type fl hdr row \<notin> set project_types \<longrightarrow>
        r1d_row fl hdr st row =
          (st, if is_summary_category (leaf_category fl hdr row) then []
               else [r1d_record fl hdr st row (leaf_category fl hdr row)]))"
proof (intro conjI impI)
  show "r1d_row fl hdr st row = (st, [])" if "row_type fl hdr row = []"
    using that by (rule r1d_row_untyped)
  show "r1d_loop fl hdr st results (Inr cells # rows) = r1d_loop fl hdr (st\<lparr>blank_streak := 0\<rparr>) results rows"
    if "map cell_value cells = row \<and> \<not> is_blank_row row \<and> row_type fl hdr row = []"
    using that by (auto simp: r1d_row_untyped Let_def)
  show "r1d_row fl hdr st row = (pe_ctx fl hdr st row, [])" if "row_type fl hdr row = ''PE''"
    using that by (simp add: r1d_row_pe pe_ctx_def)
  show "r1d_row fl hdr st row =
          (project_ctx fl hdr st row, [r1d_record fl hdr (project_ctx fl hdr st row) row ''Project Totals''])"
    if "row_type fl hdr row \<in> set project_types"
    using that by (rule r1d_row_project_eq)
  show "r1d_row fl hdr st row =
          (st, if is_summary_category (leaf_category fl hdr row) then []
               else [r1d_record fl hdr st row (leaf_category fl hdr row)])"
    if "row_type fl hdr row \<noteq> [] \<and> row_type fl hdr row \<noteq> ''PE'' \<and> row_type fl hdr row \<notin> set project_types"
    using that by (simp add: r1d_row_leaf)
qed

theorem r1d_row_by_type_witness:
  "\<not> is_blank_row untyped_row
   \<and> row_type whole_floats scenario_hdr_map untyped_row = []
   \<and> r1d_row whole_floats scenario_hdr_map demo_ctx untyped_row = (demo_ctx, [])
   \<and> r1d_row whole_floats scenario_hdr_map demo_ctx leaf_row
        = (demo_ctx, [r1d_record whole_floats scenario_hdr_map demo_ctx leaf_row ''Wind tunnel''])"
proof -
  have nb: "\<not> is_blank_row untyped_row"
    by code_simp
  have ty: "row_type whole_floats scenario_hdr_map untyped_row = []"
    by code_simp
  have lt: "row_type whole_floats scenario_hdr_map leaf_row = ''A/PP''"
    by code_simp
  have lc: "leaf_category whole_floats scenario_hdr_map leaf_row = ''Wind tunnel''"
    by code_simp
  have ns: "\<not> is_summary_category ''Wind tunnel''"
    by code_simp
  from r1d_row_by_type [of whole_floats scenario_hdr_map untyped_row demo_ctx]
       r1d_row_by_type [of whole_floats scenario_hdr_map leaf_row demo_ctx]
       nb ty lt lc ns
  show ?thesis by (simp add: project_types_def)
qed

text \<open>
  C10 as stated fails: a row of Type "CA" whose title is "Sum of Project Totals" has a
  non-empty Type, and it neither changes the context nor emits a record.
\<close>

theorem untyped_contrast_counterexample:
  "row_type whole_floats scenario_hdr_map summary_row = ''CA''
   \<and> \<not> is_blank_row summary_row
   \<and> r1d_row whole_floats scenario_hdr_map demo_ctx summary_row = (demo_ctx, [])"
  by code_simp


lemmas char_defs = py_isspace_def lower_char_def upper_char_def upper_AZ_def lower_az_def
lemmas str_defs = py_lower_def py_upper_def py_strip_def py_or_def py_or_str_def norm_def

lemma scenario_cell_texts:
  "map (cell_text fl) scenario_header =
     [''type'', ''pe#'', ''project#'', ''accomplishments/planned programs title'', ''description'',
      ''fy2023'', ''fy2024'', ''fy2025 base'']"
  by (simp add: scenario_header_def cell_text_def py_str_def char_defs str_defs)

lemma cell_value_ReadOnlyCell:
  "map cell_value (map ReadOnlyCell row) = row" "map (cell_value \<circ> ReadOnlyCell) row = row"
  by (induction row) (simp_all add: cell_value_def)

lemma scenario_find_header: "find_header_row fl (scenario_sheet a b c) = Inr (Some 1)"
proof -
  have texts: "map ((\<lambda>c. cell_text fl (cell_value c)) \<circ> ReadOnlyCell) scenario_header
                 = map (cell_text fl) scenario_header"
    by (simp add: cell_value_def comp_def)
  have first: "(scenario_header :: 'a row_vals) \<noteq> []"
    "cell_row k (hd (map ReadOnlyCell (scenario_header :: 'a row_vals))) = Inr k"
    "cell_row k (ReadOnlyCell (hd (scenario_header :: 'a row_vals))) = Inr k" for k
    by (simp_all add: scenario_header_def cell_row_def)
  show ?thesis
    by (simp add: find_header_row_def scenario_sheet_def sheet_of_values_def first texts
          scenario_cell_texts is_header_row_def)
qed

lemma scenario_header_map: "header_map_of fl scenario_header = scenario_hdr_map"
  by (simp add: header_map_of_def scenario_header_def cell_text_def py_str_def char_defs str_defs
        header_cell_def setdefault_def scenario_hdr_map_def)

lemma scenario_pe_step:
  "r1d_row fl scenario_hdr_map (walker_init\<lparr>blank_streak := 0\<rparr>) scenario_pe_row =
     (\<lparr>current_pe_num = Some ''0604123X'', current_pe_name = Some ''Hypersonics'',
       current_proj_num = None, current_proj_name = None, blank_streak = 0\<rparr>, [])"
  by (simp add: r1d_row_def gv_def scenario_hdr_map_def scenario_pe_row_def py_str_def walker_init_def
        char_defs str_defs Let_def)

lemma scenario_gv:
  "gv fl scenario_hdr_map (scenario_project_row a b c) ''FY2023_Cost'' = Some (py_strip (str_of_float fl a))"
  "gv fl scenario_hdr_map (scenario_project_row a b c) ''FY2024_Cost'' = Some (py_strip (str_of_float fl b))"
  "gv fl scenario_hdr_map (scenario_project_row a b c) ''FY2025_Base_Cost'' = Some (py_strip (str_of_float fl c))"
  "gv fl scenario_hdr_map (scenario_project_row a b c) ''Description'' = None"
  "gv fl scenario_hdr_map (scenario_project_row a b c) ''ProjectNumber'' = Some ''001''"
  "gv fl scenario_hdr_map (scenario_project_row a b c) ''Title'' = Some ''Flight Test''"
  "gv fl scenario_hdr_map (scenario_project_row a b c) ''Type'' = Some ''PROJECT''"
  by (simp_all add: gv_def scenario_hdr_map_def scenario_project_row_def py_str_def py_strip_def py_isspace_def)

lemma scenario_not_blank:
  "\<not> is_blank_row scenario_pe_row" "\<not> is_blank_row (scenario_project_row a b c)"
  by (simp_all add: is_blank_row_def scenario_pe_row_def scenario_project_row_def py_strip_def py_isspace_def)

lemma strip_numerals:
  "py_strip ''10.0'' = ''10.0''" "py_strip ''12.0'' = ''12.0''" "py_strip ''15.0'' = ''15.0''"
  by (simp_all add: py_strip_def py_isspace_def)

lemma scenario_project_step:
  assumes "str_of_float fl a = ''10.0''" "str_of_float fl b = ''12.0''" "str_of_float fl c = ''15.0''"
    and "float_of_str fl ''10.0'' = Inr a" "float_of_str fl ''12.0'' = Inr b" "float_of_str fl ''15.0'' = Inr c"
  shows "r1d_row fl scenario_hdr_map
           \<lparr>current_pe_num = Some ''0604123X'', current_pe_name = Some ''Hypersonics'',
            current_proj_num = None, current_proj_name = None, blank_streak = 0\<rparr>
           (scenario_project_row a b c) =
         (\<lparr>current_pe_num = Some ''0604123X'', current_pe_name = Some ''Hypersonics'',
           current_proj_num = Some ''001'', current_proj_name = Some ''Flight Test'', blank_streak = 0\<rparr>,
          [scenario_record a b c])"
proof -
  have comma: "remove_commas ''10.0'' = ''10.0''" "remove_commas ''12.0'' = ''12.0''" "remove_commas ''15.0'' = ''15.0''"
    by (simp_all add: remove_commas_def)
  have fy: "parse_float_safe_any fl (opt_str (Some ''10.0'')) = Some a"
    "parse_float_safe_any fl (opt_str (Some ''12.0'')) = Some b"
    "parse_float_safe_any fl (opt_str (Some ''15.0'')) = Some c"
    using assms(4-6)
    by (simp_all add: parse_float_safe_any_def opt_str_def py_str_def strip_numerals comma catch_all_def Let_def)
  have up: "py_upper ''PROJECT'' = ''PROJECT''"
    by (simp add: py_upper_def char_defs)
  have strips: "py_strip ''0604123X'' = ''0604123X''" "py_strip ''Hypersonics'' = ''Hypersonics''"
    "py_strip ''001'' = ''001''" "py_strip ''Flight Test'' = ''Flight Test''"
    by (simp_all add: py_strip_def py_isspace_def)
  show ?thesis
    using assms(1-3)
    by (simp add: r1d_row_def scenario_gv Let_def r1d_record_def scenario_record_def norm_def py_or_def
          py_or_str_def up strips strip_numerals fy)
qed

text \<open>
  C5. The scenario of the specification. On the worksheet made of the header row, the PE
  row and the PROJECT row, whose three cost cells hold the floats 10.0, 12.0 and 15.0
  (floats that \<open>str\<close> prints so and \<open>float\<close> reads back): the header is found in row 1
  and mapped to the R-1D columns, the PE row sets the context and emits nothing, and the
  sheet yields exactly one record, the project's "Project Totals" line with the three
  costs (and an empty \<open>R1D_Description\<close>, the description cell being empty).
\<close>

theorem row_walker_scenario:
  assumes "str_of_float fl a = ''10.0''" "str_of_float fl b = ''12.0''" "str_of_float fl c = ''15.0''"
    and "float_of_str fl ''10.0'' = Inr a" "float_of_str fl ''12.0'' = Inr b" "float_of_str fl ''15.0'' = Inr c"
  shows "find_header_row fl (scenario_sheet a b c) = Inr (Some 1)
         \<and> header_map_of fl scenario_header = scenario_hdr_map
         \<and> r1d_row fl scenario_hdr_map walker_init scenario_pe_row =
             (\<lparr>current_pe_num = Some ''0604123X'', current_pe_name = Some ''Hypersonics'',
               current_proj_num = None, current_proj_name = None, blank_streak = 0\<rparr>, [])
         \<and> r1d_loop fl scenario_hdr_map walker_init [] (sheet_of_values [scenario_pe_row]) = Inr []
         \<and> parse_r1d_sheet fl (scenario_sheet a b c) 1 scenario_hdr_map =
             Inr [\<lparr>PENumber = ''0604123X'', PEName = ''Hypersonics'', ProjectNumber = ''001'',
                   ProjectName = ''Flight Test'', CostCategory = ''Project Totals'',
                   FY2023_Cost = Some a, FY2024_Cost = Some b, FY2025_Base_Cost = Some c,
                   R1D_Description = Some []\<rparr>]
         \<and> parse_sheet fl (scenario_sheet a b c) = parse_r1d_sheet fl (scenario_sheet a b c) 1 scenario_hdr_map"
proof -
  have pe_only: "r1d_loop fl scenario_hdr_map walker_init [] (sheet_of_values [scenario_pe_row]) = Inr []"
    by (simp add: sheet_of_values_def cell_value_ReadOnlyCell scenario_not_blank scenario_pe_step Let_def)
  have walk: "parse_r1d_sheet fl (scenario_sheet a b c) 1 scenario_hdr_map = Inr [scenario_record a b c]"
    by (simp add: parse_r1d_sheet_def scenario_sheet_def sheet_of_values_def cell_value_ReadOnlyCell
          scenario_not_blank scenario_pe_step scenario_project_step [OF assms] Let_def)
  have keys: "list_all (\<lambda>k. map_of scenario_hdr_map k \<noteq> None) [''Type'', ''PENumber'', ''ProjectNumber'']"
    by (simp add: scenario_hdr_map_def)
  have ne: "scenario_hdr_map \<noteq> []"
    by (simp add: scenario_hdr_map_def)
  have sheet: "parse_sheet fl (scenario_sheet a b c) = parse_r1d_sheet fl (scenario_sheet a b c) 1 scenario_hdr_map"
    using keys ne
    by (simp add: parse_sheet_def scenario_find_header)
       (simp add: scenario_sheet_def sheet_of_values_def cell_value_ReadOnlyCell scenario_header_map)
  have pe_row: "r1d_row fl scenario_hdr_map walker_init scenario_pe_row =
                  (\<lparr>current_pe_num = Some ''0604123X'', current_pe_name = Some ''Hypersonics'',
                    current_proj_num = None, current_proj_name = None, blank_streak = 0\<rparr>, [])"
    using scenario_pe_step [of fl] by (simp add: walker_init_def)
  show ?thesis
    unfolding scenario_find_header scenario_header_map pe_only pe_row walk sheet
    by (simp add: scenario_record_def)
qed

theorem row_walker_scenario_witness:
  "parse_sheet whole_floats (scenario_sheet 10 12 15) =
     Inr [\<lparr>PENumber = ''0604123X'', PEName = ''Hypersonics'', ProjectNumber = ''001'',
           ProjectName = ''Flight Test'', CostCategory = ''Project Totals'',
           FY2023_Cost = Some 10, FY2024_Cost = Some 12, FY2025_Base_Cost = Some 15,
           R1D_Description = Some []\<rparr>]"
proof -
  have s: "str_of_float whole_floats 10 = ''10.0''" "str_of_float whole_floats 12 = ''12.0''"
    "str_of_float whole_floats 15 = ''15.0''"
    by code_simp+
  have f: "float_of_str whole_floats ''10.0'' = Inr 10" "float_of_str whole_floats ''12.0'' = Inr 12"
    "float_of_str whole_floats ''15.0'' = Inr 15"
    by code_simp+
  from row_walker_scenario [OF s f] show ?thesis by simp
qed



section \<open>Properties of the ingestor\<close>

lemma parse_r3_loop_skip:
  "parse_path fl fs p = Inr [] \<Longrightarrow>
     parse_r3_loop fl fs results (ps @ p # qs) = parse_r3_loop fl fs results (ps @ qs)"
  by (induction ps arbitrary: results) (auto split: sum.splits)

text \<open>
  What holds of the fail-soft policy: a path that is no file, and a file its reader
  cannot open, contribute nothing, and the list is processed as if they were not in it.
\<close>

lemma fail_soft_where_the_reader_fails:
  "(fs p = None \<longrightarrow> parse_path fl fs p = Inr [])
   \<and> (fs p = Some f \<and> as_xml f = Inl e \<and> as_workbook f = Inl e' \<longrightarrow> parse_path fl fs p = Inr [])
   \<and> (parse_path fl fs p = Inr [] \<longrightarrow>
        parse_r3_projects fl fs (ps @ p # qs) = parse_r3_projects fl fs (ps @ qs))"
  by (auto simp: parse_path_def parse_xml_tree_def parse_workbook_def Let_def parse_r3_projects_def
        parse_r3_loop_skip)

lemma blank_pe_xml_lines: "parse_xml_tree fl (Inr blank_pe_xml) = [blank_line]"
  by (simp add: parse_xml_tree_def blank_pe_xml_def xpath_doc_def xml_pe_lines_def xml_get_def findtext_def
        truthy_def py_or_def xpath_below_def xml_cost_line_def norm_def py_or_str_def py_strip_def
        py_isspace_def parse_float_safe_def blank_line_def Let_def)

lemma ext_blank_xml: "py_lower (splitext_ext ''blank.xml'') = ''.xml''"
  by code_simp

text \<open>
  C6, at the input where the code departs from it. The XML parser tests the program
  element's number before trimming it, so a number of one space passes the test, and the
  file yields a record whose trimmed \<open>PENumber\<close>, \<open>ProjectNumber\<close> and \<open>CostCategory\<close>
  are all empty. (The two spreadsheet paths test the trimmed fields, and keep the
  invariant: \<open>parse_workbook_identified\<close> below.)
\<close>

theorem xml_whitespace_pe_number_blank_record:
  "parse_xml_tree fl (Inr blank_pe_xml) = [blank_line]
   \<and> parse_r3_projects whole_floats demo_fs [''blank.xml''] = Inr [blank_line]
   \<and> PENumber (blank_line :: int cost_line) = [] \<and> ProjectNumber (blank_line :: int cost_line) = []
   \<and> CostCategory (blank_line :: int cost_line) = []"
  by (simp add: blank_pe_xml_lines parse_r3_projects_def parse_path_def demo_fs_def ext_blank_xml Let_def)
     (simp add: blank_line_def)

text \<open>
  C9, at the inputs where the code departs from it. A workbook that opens is read
  outside any \<open>try\<close>. Its first worksheet has a note in cell B1 and nothing in A1, above
  the header: \<open>_find_header_row\<close> reads \<open>row[0].row\<close> of the first row, the cell is an
  \<open>EmptyCell\<close>, and the \<open>AttributeError\<close> leaves \<open>parse_r3_projects\<close>: the records of the
  file before it are lost and the file after it is never read. The same happens when the
  row iterator fails in the middle of a sheet. Each of the files around them, alone,
  yields its record.
\<close>

theorem parse_r3_projects_raises_on_readable_workbook:
  "parse_r3_projects whole_floats demo_fs [''good.xlsx'', ''gap.xlsx'', ''good.xlsx''] = Inl AttributeError
   \<and> parse_r3_projects whole_floats demo_fs [''good.xlsx'', ''torn.xlsx'', ''good.xlsx''] = Inl ParseError
   \<and> parse_r3_projects whole_floats demo_fs [''good.xlsx''] = Inr [scenario_record 10 12 15]
   \<and> find_header_row whole_floats gap_sheet = Inl AttributeError"
  by code_simp

lemma generic_loop_identified:
  "\<forall>r\<in>set results. identified r \<Longrightarrow> generic_loop fl hdr k results rows = Inr recs
     \<Longrightarrow> \<forall>r\<in>set recs. identified r"
proof (induction rows arbitrary: k results)
  case Nil
  then show ?case by simp
next
  case (Cons item rows)
  show ?case
  proof (cases item)
    case (Inl e)
    with Cons.prems show ?thesis by simp
  next
    case (Inr cells)
    let ?row = "map cell_value cells"
    let ?rec = "generic_record fl hdr ?row"
    show ?thesis
    proof (cases "is_blank_row ?row")
      case True
      show ?thesis
      proof (cases "5 \<le> k + 1")
        case True
        with \<open>is_blank_row ?row\<close> Inr Cons.prems show ?thesis by (simp add: Let_def)
      next
        case False
        with \<open>is_blank_row ?row\<close> Inr Cons.prems
        have "generic_loop fl hdr (k + 1) results rows = Inr recs" by (simp add: Let_def)
        from Cons.IH [OF Cons.prems(1) this] show ?thesis .
      qed
    next
      case False
      show ?thesis
      proof (cases "PENumber ?rec = [] \<and> ProjectNumber ?rec = []")
        case True
        with False Inr Cons.prems have "generic_loop fl hdr 0 results rows = Inr recs"
          by (simp add: Let_def)
        from Cons.IH [OF Cons.prems(1) this] show ?thesis .
      next
        case skip: False
        then have "identified ?rec" by (auto simp: identified_def)
        with Cons.prems(1) have all: "\<forall>r\<in>set (results @ [?rec]). identified r" by auto
        from False skip Inr Cons.prems(2) have "generic_loop fl hdr 0 (results @ [?rec]) rows = Inr recs"
          by (auto simp: Let_def)
        from Cons.IH [OF all this] show ?thesis .
      qed
    qed
  qed
qed

lemma r1d_row_identified: "r \<in> set (snd (r1d_row fl hdr st row)) \<Longrightarrow> identified r"
proof (cases rule: row_type_cases [of fl hdr row])
  case 1
  assume "r \<in> set (snd (r1d_row fl hdr st row))"
  with 1 show ?thesis by (simp add: r1d_row_untyped)
next
  case 2
  assume "r \<in> set (snd (r1d_row fl hdr st row))"
  with 2 show ?thesis by (simp add: r1d_row_pe)
next
  case 3
  assume "r \<in> set (snd (r1d_row fl hdr st row))"
  with r1d_row_project [OF 3, of st] show ?thesis by (auto simp: identified_def)
next
  case 4
  assume "r \<in> set (snd (r1d_row fl hdr st row))"
  with r1d_row_leaf [OF 4, of st] leaf_category_nonempty [OF 4(1)] show ?thesis
    by (auto simp: identified_def r1d_record_def split: if_splits)
qed

lemma parse_sheet_identified:
  assumes "parse_sheet fl sheet = Inr recs"
  shows "\<forall>r\<in>set recs. identified r"
proof -
  have r1d: "parse_r1d_sheet fl sh h hdr = Inr rs \<Longrightarrow> \<forall>r\<in>set rs. identified r" for sh h hdr rs
    unfolding parse_r1d_sheet_def
    by (rule r1d_loop_invariant [where P = identified and results = "[]"]) (simp_all add: r1d_row_identified)
  have gen: "generic_loop fl hdr 0 [] rows = Inr rs \<Longrightarrow> \<forall>r\<in>set rs. identified r" for hdr rows rs
    by (rule generic_loop_identified [where results = "[]"]) simp_all
  from assms r1d gen show ?thesis
    by (auto simp: parse_sheet_def Let_def split: sum.splits option.splits list.splits if_splits)
qed

lemma worksheets_loop_identified:
  "\<forall>r\<in>set results. identified r \<Longrightarrow> worksheets_loop fl results sheets = Inr recs
     \<Longrightarrow> \<forall>r\<in>set recs. identified r"
proof (induction sheets arbitrary: results)
  case Nil
  then show ?case by simp
next
  case (Cons sheet sheets)
  from Cons.prems(2) obtain out where out: "parse_sheet fl sheet = Inr out"
    and rest: "worksheets_loop fl (results @ out) sheets = Inr recs"
    by (auto split: sum.splits)
  from parse_sheet_identified [OF out] Cons.prems(1) have "\<forall>r\<in>set (results @ out). identified r"
    by auto
  from Cons.IH [OF this rest] show ?case .
qed

lemma parse_workbook_identified:
  "parse_workbook fl loaded = Inr recs \<Longrightarrow> \<forall>r\<in>set recs. identified r"
  using worksheets_loop_identified [of "[]" fl _ recs]
  by (auto simp: parse_workbook_def split: sum.splits)

end
